theory Spec2Isabelle
  imports Complex_Main "HOL-Library.Log_Nat"
begin

section \<open>Machine arithmetic of the binding layer\<close>

text \<open>
  The source computes with \<open>int64_t\<close>, \<open>int\<close> (32 bit) and C's truncating division.
  Integers are modelled as \<open>int\<close> with the two's-complement wrap-around written out
  at the places where a value can leave its type: the products \<open>t * 10\<close> and
  \<open>t * WHISPER_SAMPLE_RATE\<close> on \<open>int64_t\<close> (signed overflow is undefined in C++; the
  model takes the wrap-around that the usual compilers produce) and every cast \<open>(int)\<close>.
\<close>

definition i64 :: "int \<Rightarrow> int" where
  "i64 x = (x + 2 ^ 63) mod 2 ^ 64 - 2 ^ 63"

definition i32 :: "int \<Rightarrow> int" where
  "i32 x = (x + 2 ^ 31) mod 2 ^ 32 - 2 ^ 31"

definition c_div :: "int \<Rightarrow> int \<Rightarrow> int" where
  "c_div a b = sgn a * sgn b * (\<bar>a\<bar> div \<bar>b\<bar>)"

section \<open>Formatting: \<open>snprintf\<close> with \<open>%0Nd\<close>\<close>

definition digit_char :: "nat \<Rightarrow> char" where
  "digit_char d = ''0123456789'' ! d"

fun to_dec :: "nat \<Rightarrow> string" where
  "to_dec n = (if n < 10 then [digit_char n] else to_dec (n div 10) @ [digit_char (n mod 10)])"

declare to_dec.simps [simp del]

text \<open>
  \<open>printf_0d w n\<close> is what \<open>%0wd\<close> prints for the \<open>int\<close> value \<open>n\<close>: the decimal
  digits, a leading minus sign for a negative value, and zeros between sign and digits
  up to the minimum width \<open>w\<close>. A value wider than \<open>w\<close> is printed in full.
\<close>

definition printf_0d :: "nat \<Rightarrow> int \<Rightarrow> string" where
  "printf_0d w n =
     (let ds = to_dec (nat \<bar>n\<bar>)
      in if n < 0 then ''-'' @ replicate (w - 1 - length ds) (CHR ''0'') @ ds
         else replicate (w - length ds) (CHR ''0'') @ ds)"

section \<open>\<open>to_timestamp\<close>\<close>

text \<open>
  Source lines 25-38. The buffer has 32 bytes, so \<open>snprintf\<close> keeps at most 31
  characters.
\<close>

definition to_timestamp :: "int \<Rightarrow> bool \<Rightarrow> string" where
  "to_timestamp t comma =
     (let msec = i64 (t * 10);
          hr = c_div msec (1000 * 60 * 60);
          msec = msec - hr * (1000 * 60 * 60);
          mn = c_div msec (1000 * 60);
          msec = msec - mn * (1000 * 60);
          sec = c_div msec 1000;
          msec = msec - sec * 1000
      in take 31 (printf_0d 2 (i32 hr) @ '':'' @ printf_0d 2 (i32 mn) @ '':'' @
                  printf_0d 2 (i32 sec) @ (if comma then '','' else ''.'') @
                  printf_0d 3 (i32 msec)))"

section \<open>The engine and the WAV reader, as the binding sees them\<close>

text \<open>
  Modelled from the spec: the macro \<open>WHISPER_SAMPLE_RATE\<close> is declared in the
  engine's header \<open>whisper.h\<close>, which is not among the sources. The spec gives the
  accepted rate as 16 kHz, and so does the message of source line 261.
\<close>

definition WHISPER_SAMPLE_RATE :: int where
  "WHISPER_SAMPLE_RATE = 16000"

text \<open>
  The engine's result set, read by the source through the accessors
  \<open>whisper_full_n_segments\<close>, \<open>whisper_full_get_segment_t0/t1/text\<close>,
  \<open>whisper_full_n_tokens\<close>, \<open>whisper_full_get_token_id/text/p/data\<close>,
  \<open>whisper_token_eot\<close> and \<open>whisper_is_multilingual\<close>. A finite value of type
  \<open>float\<close> or \<open>double\<close> is modelled by the rational it denotes.
\<close>

record whisper_token_data =
  tok_id :: int
  tok_text :: string
  tok_p :: rat
  tok_t0 :: int
  tok_t1 :: int

record whisper_segment =
  seg_t0 :: int
  seg_t1 :: int
  seg_text :: string
  seg_tokens :: "whisper_token_data list"

record whisper_context =
  whisper_is_multilingual :: bool
  whisper_token_eot :: int
  ctx_segments :: "whisper_segment list"

text \<open>
  \<open>drwav\<close> after a successful \<open>drwav_init_file\<close>: the header fields that the source
  reads, and the interleaved 16-bit samples that \<open>drwav_read_pcm_frames_s16\<close> delivers.
\<close>

record drwav =
  wav_channels :: nat
  wav_sampleRate :: nat
  wav_bitsPerSample :: nat
  wav_totalPCMFrameCount :: nat
  wav_frames :: "int list"

text \<open>Source lines 55-81, the fields with the prefix \<open>p_\<close>.\<close>

record whisper_params =
  p_n_threads :: int
  p_n_processors :: int
  p_offset_t_ms :: int
  p_offset_n :: int
  p_duration_ms :: int
  p_max_context :: int
  p_max_len :: int
  p_word_thold :: rat
  p_speed_up :: bool
  p_translate :: bool
  p_diarize :: bool
  p_output_txt :: bool
  p_output_vtt :: bool
  p_output_srt :: bool
  p_output_wts :: bool
  p_print_special :: bool
  p_print_colors :: bool
  p_no_timestamps :: bool
  p_language :: string
  p_model :: string
  p_fname_inp :: "string list"

text \<open>
  The fields of the engine's configuration \<open>whisper_full_params\<close> that the source
  assigns (lines 323-359), with the prefix \<open>wp_\<close>. The two callback fields record
  whether the source has installed its callback.
\<close>

record whisper_full_params =
  wp_print_realtime :: bool
  wp_print_progress :: bool
  wp_print_timestamps :: bool
  wp_print_special :: bool
  wp_translate :: bool
  wp_language :: string
  wp_n_threads :: int
  wp_n_max_text_ctx :: int
  wp_offset_ms :: int
  wp_duration_ms :: int
  wp_token_timestamps :: bool
  wp_thold_pt :: rat
  wp_max_len :: int
  wp_speed_up :: bool
  wp_new_segment_callback :: bool
  wp_encoder_begin_callback :: bool

text \<open>
  One run of \<open>whisper_full_parallel\<close>: its return code, the result set it leaves in
  the context, and the moments at which it reports new segments (the context at that
  moment and the number \<open>n_new\<close>), in order.
\<close>

record engine_run =
  run_new_segments :: "(whisper_context \<times> int) list"
  run_ret :: int
  run_ctx :: whisper_context

text \<open>
  Everything outside the source that \<open>whisper_encode\<close> calls. Each field has the
  name of the function it stands for.
\<close>

record env =
  hardware_concurrency :: int
  whisper_lang_id :: "string \<Rightarrow> int"
  drwav_init_file :: "string \<Rightarrow> drwav option"
  whisper_full_default_params :: whisper_full_params
  whisper_full_parallel ::
    "whisper_context \<Rightarrow> whisper_full_params \<Rightarrow> rat list \<Rightarrow> int \<Rightarrow> engine_run"

section \<open>Errors and observable effects\<close>

text \<open>
  \<open>Rcpp_stop fmt args\<close> is the fatal error raised by \<open>Rcpp::stop(fmt, args...)\<close>.
  \<open>Undefined_read\<close> marks a read past the end of a vector, which the source does not
  check.
\<close>

datatype error = Rcpp_stop string "string list" | Undefined_read string

text \<open>
  The trace of a call: what is printed (\<open>Rprintf\<close> with its format and arguments, the
  progress line written to \<open>Rcpp::Rcout\<close>), the warning, the interrupt check, and
  the call of the engine's decode entry point with the arguments it receives.
\<close>

datatype event =
    Rprintf string "string list"
  | Rcout_processing string int string bool bool
  | Rcpp_warning string
  | Rcpp_checkUserInterrupt
  | Call_whisper_full_parallel whisper_full_params "rat list" int
  | Undefined_behaviour string

section \<open>The colour palette\<close>

text \<open>Source lines 18-21; \<open>\033\<close> is the character with code 0x1B.\<close>

definition k_colors :: "string list" where
  "k_colors =
     [CHR 0x1B # ''[38;5;196m'', CHR 0x1B # ''[38;5;202m'', CHR 0x1B # ''[38;5;208m'',
      CHR 0x1B # ''[38;5;214m'', CHR 0x1B # ''[38;5;220m'', CHR 0x1B # ''[38;5;226m'',
      CHR 0x1B # ''[38;5;190m'', CHR 0x1B # ''[38;5;154m'', CHR 0x1B # ''[38;5;118m'',
      CHR 0x1B # ''[38;5;82m'']"

text \<open>
  The cast \<open>(int)\<close> of a floating-point value drops the fraction (rounds towards
  zero).
\<close>

definition int_of_double :: "rat \<Rightarrow> int" where
  "int_of_double x = (if 0 \<le> x then \<lfloor>x\<rfloor> else \<lceil>x\<rceil>)"

text \<open>
  Source lines 116 and 170:
  \<open>col = std::max(0, std::min((int) k_colors.size(), (int) (std::pow(p, 3)*float(k_colors.size()))))\<close>.
  The power and the product are taken exactly here; at \<open>p = 1\<close> they are exact in
  the code as well.
\<close>

definition color_index :: "rat \<Rightarrow> int" where
  "color_index p =
     max 0 (min (int (length k_colors)) (int_of_double (p ^ 3 * of_nat (length k_colors))))"

text \<open>\<open>k_colors[col]\<close>: \<open>None\<close> where the index is outside the vector.\<close>

definition k_colors_at :: "int \<Rightarrow> string option" where
  "k_colors_at col =
     (if 0 \<le> col \<and> col < int (length k_colors) then Some (k_colors ! nat col) else None)"

text \<open>
  The token loop of source lines 105-119 and 159-173. The two copies differ in the
  format and in the arguments printed before the colour: \<open>fmt\<close> and \<open>pre\<close>.
\<close>

fun print_colors_loop ::
    "string \<Rightarrow> string list \<Rightarrow> whisper_params \<Rightarrow> int \<Rightarrow> whisper_token_data list \<Rightarrow> event list"
where
  "print_colors_loop fmt pre params eot [] = []"
| "print_colors_loop fmt pre params eot (tk # tks) =
     (if p_print_special params = False \<and> tok_id tk \<ge> eot
      then print_colors_loop fmt pre params eot tks
      else (case k_colors_at (color_index (tok_p tk)) of
              None \<Rightarrow> Undefined_behaviour ''k_colors[col]''
            | Some c \<Rightarrow> Rprintf fmt (pre @ [c, tok_text tk, CHR 0x1B # ''[0m'']))
           # print_colors_loop fmt pre params eot tks)"

section \<open>Double-precision arithmetic\<close>

text \<open>
  The sums and the product of the diarization are computed in \<open>double\<close>. A finite
  \<open>double\<close> is modelled by the rational it denotes, and every operation by the exact
  result rounded to the nearest \<open>double\<close>, ties to the even significand (the IEEE 754
  default): a significand of 53 bits, the smallest exponent \<open>-1022\<close>, below it the
  fixed spacing \<open>2^-1074\<close> of the subnormal numbers. Infinities and NaN are not
  modelled; sums of fewer than \<open>2^31\<close> absolute values of type \<open>float\<close> stay finite.
\<close>

definition round_half_even :: "rat \<Rightarrow> int" where
  "round_half_even x =
     (let f = \<lfloor>x\<rfloor>; r = x - of_int f
      in if r < 1 / 2 then f else if 1 / 2 < r then f + 1 else if even f then f else f + 1)"

text \<open>\<open>binade x\<close> is the exponent \<open>e\<close> with \<open>2^e \<le> x < 2^(e+1)\<close>, for \<open>x > 0\<close>.\<close>

definition binade :: "rat \<Rightarrow> int" where
  "binade x =
     (case quotient_of x of
        (a, b) \<Rightarrow> (let d = bitlen a - bitlen b in if 2 powi d \<le> x then d else d - 1))"

text \<open>The spacing of the \<open>double\<close> values around \<open>a > 0\<close>.\<close>

definition ulp :: "rat \<Rightarrow> rat" where
  "ulp a = 2 powi (max (binade a) (- 1022) - 52)"

definition round_double :: "rat \<Rightarrow> rat" where
  "round_double x =
     (if x = 0 then 0
      else sgn x * (ulp \<bar>x\<bar> * of_int (round_half_even (\<bar>x\<bar> / ulp \<bar>x\<bar>))))"

text \<open>The literal \<open>1.1\<close> of source lines 146 and 148 is the \<open>double\<close> nearest to 11/10.\<close>

definition double_1_1 :: rat where
  "double_1_1 = round_double (11 / 10)"

section \<open>Diarization\<close>

text \<open>
  Source lines 40-42. The parameter \<open>n_samples\<close> has type \<open>int\<close>; the caller passes
  an \<open>int64_t\<close>, which the call converts.
\<close>

definition timestamp_to_sample :: "int \<Rightarrow> int \<Rightarrow> int" where
  "timestamp_to_sample t n_samples =
     max 0 (min (i32 n_samples - 1) (i32 (c_div (i64 (t * WHISPER_SAMPLE_RATE)) 100)))"

text \<open>
  The loop of source lines 141-144, from \<open>j\<close> up to \<open>is1\<close>; \<open>None\<close> when it reads
  past the end of a channel. The conversion of a sample from \<open>float\<close> to \<open>double\<close> and
  \<open>fabs\<close> are exact; each \<open>+=\<close> rounds.
\<close>

function energy_loop ::
    "rat list \<Rightarrow> rat list \<Rightarrow> int \<Rightarrow> int \<Rightarrow> rat \<times> rat \<Rightarrow> (rat \<times> rat) option"
where
  "energy_loop ch0 ch1 j is1 (energy0, energy1) =
     (if j < is1 then
        (if 0 \<le> j \<and> nat j < length ch0 \<and> nat j < length ch1
         then energy_loop ch0 ch1 (j + 1) is1
                (round_double (energy0 + \<bar>ch0 ! nat j\<bar>),
                 round_double (energy1 + \<bar>ch1 ! nat j\<bar>))
         else None)
      else Some (energy0, energy1))"
  by pat_completeness auto
termination
  by (relation "measure (\<lambda>(ch0, ch1, j, is1, e). nat (is1 - j))") auto

declare energy_loop.simps [simp del]

text \<open>
  Source lines 130-155: the speaker string of a segment with the ticks \<open>t0\<close> and
  \<open>t1\<close>. It stays empty unless diarization is on and there are two channel buffers.
  The products \<open>1.1*energy1\<close> and \<open>1.1*energy0\<close> round; the comparisons are exact.
\<close>

definition segment_speaker ::
    "whisper_params \<Rightarrow> rat list list \<Rightarrow> int \<Rightarrow> int \<Rightarrow> string option"
where
  "segment_speaker params pcmf32s t0 t1 =
     (if p_diarize params \<and> length pcmf32s = 2 then
        (let n_samples = int (length (pcmf32s ! 0));
             is0 = timestamp_to_sample t0 n_samples;
             is1 = timestamp_to_sample t1 n_samples
         in case energy_loop (pcmf32s ! 0) (pcmf32s ! 1) is0 is1 (0, 0) of
              None \<Rightarrow> None
            | Some (energy0, energy1) \<Rightarrow>
                Some (if energy0 > round_double (double_1_1 * energy1) then ''(speaker 0)''
                      else if energy1 > round_double (double_1_1 * energy0) then ''(speaker 1)''
                      else ''(speaker ?)''))
      else Some [])"

section \<open>The segment callback\<close>

text \<open>Source lines 102-181, one iteration of the loop over the new segments.\<close>

definition print_segment ::
    "whisper_params \<Rightarrow> rat list list \<Rightarrow> int \<Rightarrow> whisper_segment \<Rightarrow> event list"
where
  "print_segment params pcmf32s eot seg =
     (if p_no_timestamps params then
        (if p_print_colors params
         then print_colors_loop ''%s%s%s'' [] params eot (seg_tokens seg)
         else [Rprintf ''%s'' [seg_text seg]])
        @ [Rcpp_checkUserInterrupt]
      else
        (let t0 = seg_t0 seg; t1 = seg_t1 seg
         in case segment_speaker params pcmf32s t0 t1 of
              None \<Rightarrow> [Undefined_behaviour ''pcmf32s[1][j]'']
            | Some speaker \<Rightarrow>
                if p_print_colors params then
                  Rprintf ''[%s --> %s]  '' [to_timestamp t0 False, to_timestamp t1 False]
                  # print_colors_loop ''%s%s%s%s'' [speaker] params eot (seg_tokens seg)
                  @ [Rprintf [CHR 0x0A] []]
                else
                  [Rprintf (''[%s --> %s]  %s%s'' @ [CHR 0x0A])
                     [to_timestamp t0 False, to_timestamp t1 False, speaker, seg_text seg]]))"

text \<open>
  Source lines 90-182. The engine passes the context and \<open>n_new\<close>; the user data are
  the parameters and the channel buffers. A negative first index \<open>s0\<close> would read a
  segment that does not exist.
\<close>

definition whisper_print_segment_callback ::
    "whisper_context \<Rightarrow> int \<Rightarrow> whisper_params \<Rightarrow> rat list list \<Rightarrow> event list"
where
  "whisper_print_segment_callback ctx n_new params pcmf32s =
     (let n_segments = int (length (ctx_segments ctx));
          s0 = n_segments - n_new
      in (if s0 = 0 then [Rprintf [CHR 0x0A] []] else [])
         @ (if s0 < 0 then [Undefined_behaviour ''segment index'']
            else concat (map (print_segment params pcmf32s (whisper_token_eot ctx))
                           (drop (nat s0) (ctx_segments ctx)))))"

section \<open>\<open>whisper_encode\<close>: parameters and the WAV input\<close>

text \<open>The default member initialisers of source lines 56-80.\<close>

definition default_whisper_params :: "int \<Rightarrow> whisper_params" where
  "default_whisper_params hw =
     \<lparr> p_n_threads = min 4 (i32 hw), p_n_processors = 1, p_offset_t_ms = 0, p_offset_n = 0,
       p_duration_ms = 0, p_max_context = - 1, p_max_len = 0, p_word_thold = 1 / 100,
       p_speed_up = False, p_translate = False, p_diarize = False, p_output_txt = False,
       p_output_vtt = False, p_output_srt = False, p_output_wts = False,
       p_print_special = False, p_print_colors = False, p_no_timestamps = False,
       p_language = ''en'', p_model = ''models/ggml-base.en.bin'', p_fname_inp = [] \<rparr>"

text \<open>Source lines 212-221: the assignments from the arguments of \<open>whisper_encode\<close>.\<close>

definition encode_params ::
    "int \<Rightarrow> string \<Rightarrow> string \<Rightarrow> bool \<Rightarrow> bool \<Rightarrow> int \<Rightarrow> int \<Rightarrow> int \<Rightarrow> int \<Rightarrow> whisper_params"
where
  "encode_params hw path language translate print_special duration offset n_threads n_processors =
     (let params = default_whisper_params hw;
          params = params\<lparr>p_language := language\<rparr>;
          params = params\<lparr>p_translate := translate\<rparr>;
          params = params\<lparr>p_print_special := print_special\<rparr>;
          params = params\<lparr>p_duration_ms := duration\<rparr>;
          params = params\<lparr>p_offset_t_ms := offset\<rparr>;
          params = params\<lparr>p_fname_inp := p_fname_inp params @ [path]\<rparr>;
          params = params\<lparr>p_n_threads := n_threads\<rparr>;
          params = params\<lparr>p_n_processors := n_processors\<rparr>
      in params)"

text \<open>
  Source lines 270-272: \<open>pcm16\<close> is resized to \<open>n * channels\<close> zeros and then filled
  with the frames that the reader delivers.
\<close>

definition read_pcm16 :: "drwav \<Rightarrow> nat \<Rightarrow> int list" where
  "read_pcm16 wav n =
     (let sz = n * wav_channels wav
      in take sz (wav_frames wav) @ replicate (sz - length (wav_frames wav)) 0)"

text \<open>
  Source lines 244-298: open the file, validate the header, convert to floating point.
  The result is the mono buffer \<open>pcmf32\<close> and the channel buffers \<open>pcmf32s\<close>.
  \<open>wav_data\<close> is declared and never filled. With \<open>diarize\<close> set the source reads
  \<open>pcm16[2*i]\<close> and \<open>pcm16[2*i + 1]\<close> for every \<open>i < n\<close>, whatever the channel count.
\<close>

definition load_wav :: "env \<Rightarrow> whisper_params \<Rightarrow> string \<Rightarrow> error + rat list \<times> rat list list" where
  "load_wav e params fname_inp =
     (case drwav_init_file e fname_inp of
        None \<Rightarrow> Inl (Rcpp_stop ''Failed to open the file as WAV file: '' [fname_inp])
      | Some wav \<Rightarrow>
          if wav_channels wav \<noteq> 1 \<and> wav_channels wav \<noteq> 2 then
            Inl (Rcpp_stop ''WAV file must be mono or stereo: '' [fname_inp])
          else if p_diarize params \<and> wav_channels wav \<noteq> 2 \<and> p_no_timestamps params = False then
            Inl (Rcpp_stop
              ''WAV file must be stereo for diarization and timestamps have to be enabled: ''
              [fname_inp])
          else if int (wav_sampleRate wav) \<noteq> WHISPER_SAMPLE_RATE then
            Inl (Rcpp_stop ''WAV file must be 16 kHz: '' [fname_inp])
          else if wav_bitsPerSample wav \<noteq> 16 then
            Inl (Rcpp_stop ''WAV file must be 16 bit: '' [fname_inp])
          else
            (let wav_data = ([] :: nat list);
                 n = (if wav_data = [] then wav_totalPCMFrameCount wav
                      else length wav_data div (wav_channels wav * wav_bitsPerSample wav div 8));
                 pcm16 = read_pcm16 wav n;
                 pcmf32 =
                   (if wav_channels wav = 1
                    then map (\<lambda>i. of_int (pcm16 ! i) / 32768) [0..<n]
                    else map (\<lambda>i. of_int (pcm16 ! (2 * i) + pcm16 ! (2 * i + 1)) / 65536) [0..<n])
             in if p_diarize params then
                  (if 2 * n \<le> length pcm16
                   then Inr (pcmf32,
                          [map (\<lambda>i. of_int (pcm16 ! (2 * i)) / 32768) [0..<n],
                           map (\<lambda>i. of_int (pcm16 ! (2 * i + 1)) / 32768) [0..<n]])
                   else Inl (Undefined_read ''pcm16[2*i]''))
                else Inr (pcmf32, [])))"

section \<open>\<open>whisper_encode\<close>: the engine configuration\<close>

text \<open>
  Source lines 321-360, assignment by assignment. The callback for new segments is
  installed unless \<open>print_realtime\<close> is set; the abort callback always is (its flag
  \<open>is_aborted\<close> is never set, so it never aborts).
\<close>

definition make_wparams ::
    "whisper_full_params \<Rightarrow> whisper_params \<Rightarrow> bool \<Rightarrow> bool \<Rightarrow> whisper_full_params"
where
  "make_wparams defaults params token_timestamps trace =
     (let wparams = defaults;
          wparams = wparams\<lparr>wp_print_realtime := trace\<rparr>;
          wparams = wparams\<lparr>wp_print_progress := False\<rparr>;
          wparams = wparams\<lparr>wp_print_timestamps := \<not> p_no_timestamps params\<rparr>;
          wparams = wparams\<lparr>wp_print_special := p_print_special params\<rparr>;
          wparams = wparams\<lparr>wp_translate := p_translate params\<rparr>;
          wparams = wparams\<lparr>wp_language := p_language params\<rparr>;
          wparams = wparams\<lparr>wp_n_threads := p_n_threads params\<rparr>;
          wparams = wparams\<lparr>wp_n_max_text_ctx :=
                      (if p_max_context params \<ge> 0 then p_max_context params
                       else wp_n_max_text_ctx wparams)\<rparr>;
          wparams = wparams\<lparr>wp_offset_ms := p_offset_t_ms params\<rparr>;
          wparams = wparams\<lparr>wp_duration_ms := p_duration_ms params\<rparr>;
          wparams = wparams\<lparr>wp_token_timestamps := p_output_wts params \<or> p_max_len params > 0\<rparr>;
          wparams = wparams\<lparr>wp_token_timestamps := token_timestamps\<rparr>;
          wparams = wparams\<lparr>wp_thold_pt := p_word_thold params\<rparr>;
          wparams = wparams\<lparr>wp_max_len :=
                      (if p_output_wts params \<and> p_max_len params = 0 then 60
                       else p_max_len params)\<rparr>;
          wparams = wparams\<lparr>wp_speed_up := p_speed_up params\<rparr>;
          wparams = (if \<not> wp_print_realtime wparams
                     then wparams\<lparr>wp_new_segment_callback := True\<rparr> else wparams);
          wparams = wparams\<lparr>wp_encoder_begin_callback := True\<rparr>
      in wparams)"

section \<open>\<open>whisper_encode\<close>: one input file\<close>

text \<open>
  Source lines 308-315: a model that is not multilingual forces the language \<open>en\<close>
  and no translation, with a warning. The result is the parameters and what is
  emitted.
\<close>

definition language_fallback ::
    "whisper_context \<Rightarrow> whisper_params \<Rightarrow> whisper_params \<times> event list"
where
  "language_fallback ctx params =
     (if \<not> whisper_is_multilingual ctx then
        (if p_language params \<noteq> ''en'' \<or> p_translate params then
           (params\<lparr>p_language := ''en'', p_translate := False\<rparr>,
            [Rcpp_warning
              ''WARNING: model is not multilingual, ignoring language and translation options''])
         else (params, []))
      else (params, []))"

text \<open>
  Source lines 320-365: build the configuration and call the engine. The engine calls
  the segment callback, if installed, at the moments of its run, with the parameters
  and the channel buffers as user data. A return code other than 0 stops the call.
\<close>

definition run_inference ::
    "env \<Rightarrow> bool \<Rightarrow> bool \<Rightarrow> whisper_context \<Rightarrow> whisper_params \<Rightarrow> rat list \<Rightarrow> rat list list
     \<Rightarrow> event list \<times> whisper_context \<times> (error + unit)"
where
  "run_inference e token_timestamps trace ctx params pcmf32 pcmf32s =
     (let wparams = make_wparams (whisper_full_default_params e) params token_timestamps trace;
          run = whisper_full_parallel e ctx wparams pcmf32 (p_n_processors params);
          printed = (if wp_new_segment_callback wparams
                     then concat (map (\<lambda>(c, n_new).
                            whisper_print_segment_callback c n_new params pcmf32s)
                            (run_new_segments run))
                     else []);
          evs = Call_whisper_full_parallel wparams pcmf32 (p_n_processors params) # printed
      in if run_ret run \<noteq> 0
         then (evs, run_ctx run, Inl (Rcpp_stop ''failed to process audio'' []))
         else (evs, run_ctx run, Inr ()))"

text \<open>
  Source lines 239-366, the body of the loop over \<open>params.fname_inp\<close>. It returns the
  trace, the context as the engine leaves it, and either the error that stops the
  call or the parameters, which the language fallback may have changed.
\<close>

definition process_file ::
    "env \<Rightarrow> bool \<Rightarrow> bool \<Rightarrow> whisper_context \<Rightarrow> whisper_params \<Rightarrow> string
     \<Rightarrow> event list \<times> whisper_context \<times> (error + whisper_params)"
where
  "process_file e token_timestamps trace ctx params fname_inp =
     (case load_wav e params fname_inp of
        Inl err \<Rightarrow> ([], ctx, Inl err)
      | Inr (pcmf32, pcmf32s) \<Rightarrow>
          (case language_fallback ctx params of
             (params, warn) \<Rightarrow>
               (let processing = Rcout_processing fname_inp (i32 (int (length pcmf32)))
                                   (p_language params) (p_translate params) token_timestamps
                in case run_inference e token_timestamps trace ctx params pcmf32 pcmf32s of
                     (evs, ctx', Inl err) \<Rightarrow> (warn @ processing # evs, ctx', Inl err)
                   | (evs, ctx', Inr u) \<Rightarrow> (warn @ processing # evs, ctx', Inr params))))"

fun process_files ::
    "env \<Rightarrow> bool \<Rightarrow> bool \<Rightarrow> whisper_context \<Rightarrow> whisper_params \<Rightarrow> string list
     \<Rightarrow> event list \<times> whisper_context \<times> (error + whisper_params)"
where
  "process_files e token_timestamps trace ctx params [] = ([], ctx, Inr params)"
| "process_files e token_timestamps trace ctx params (f # fs) =
     (case process_file e token_timestamps trace ctx params f of
        (evs, ctx', Inl err) \<Rightarrow> (evs, ctx', Inl err)
      | (evs, ctx', Inr params') \<Rightarrow>
          (case process_files e token_timestamps trace ctx' params' fs of
             (evs', ctx'', r) \<Rightarrow> (evs @ evs', ctx'', r)))"

section \<open>\<open>whisper_encode\<close>: the result\<close>

text \<open>The vectors declared in source lines 370-378.\<close>

record token_vectors =
  token_segment_nr :: "int list"
  token_segment_text :: "string list"
  token_segment_probability :: "rat list"
  token_segment_from :: "string list"
  token_segment_to :: "string list"

record result_vectors = token_vectors +
  segment_nr :: "int list"
  transcriptions :: "string list"
  transcriptions_from :: "string list"
  transcriptions_to :: "string list"

text \<open>
  Source lines 388-408: the loop over the tokens of segment \<open>i\<close>, with
  \<open>push_back\<close> as appending.
\<close>

fun token_loop ::
    "bool \<Rightarrow> bool \<Rightarrow> int \<Rightarrow> int \<Rightarrow> whisper_token_data list
     \<Rightarrow> 'a token_vectors_scheme \<Rightarrow> 'a token_vectors_scheme"
where
  "token_loop print_special token_timestamps eot i [] v = v"
| "token_loop print_special token_timestamps eot i (token # rest) v =
     (if print_special = False \<and> tok_id token \<ge> eot
      then token_loop print_special token_timestamps eot i rest v
      else
        (let v = v\<lparr>token_segment_nr := token_segment_nr v @ [i + 1]\<rparr>;
             v = v\<lparr>token_segment_text := token_segment_text v @ [tok_text token]\<rparr>;
             v = v\<lparr>token_segment_probability := token_segment_probability v @ [tok_p token]\<rparr>;
             v = (if token_timestamps
                  then (let t0 = tok_t0 token; t1 = tok_t1 token;
                            v = v\<lparr>token_segment_from :=
                                    token_segment_from v @ [to_timestamp t0 False]\<rparr>;
                            v = v\<lparr>token_segment_to :=
                                    token_segment_to v @ [to_timestamp (tok_t1 token) False]\<rparr>
                        in v)
                  else v)
         in token_loop print_special token_timestamps eot i rest v))"

text \<open>
  Source lines 379-409: the loop over the segments, \<open>i\<close> counting from 0. The three
  string vectors of the segment table are created with \<open>n_segments\<close> entries and
  assigned at index \<open>i\<close>; the model appends in the same order.
\<close>

fun segment_loop ::
    "bool \<Rightarrow> bool \<Rightarrow> int \<Rightarrow> int \<Rightarrow> whisper_segment list \<Rightarrow> result_vectors \<Rightarrow> result_vectors"
where
  "segment_loop print_special token_timestamps eot i [] v = v"
| "segment_loop print_special token_timestamps eot i (seg # rest) v =
     (let v = v\<lparr>segment_nr := segment_nr v @ [i + 1]\<rparr>;
          v = v\<lparr>transcriptions := transcriptions v @ [seg_text seg]\<rparr>;
          t0 = seg_t0 seg;
          t1 = seg_t1 seg;
          v = v\<lparr>transcriptions_from := transcriptions_from v @ [to_timestamp t0 False]\<rparr>;
          v = v\<lparr>transcriptions_to := transcriptions_to v @ [to_timestamp t1 False]\<rparr>;
          v = token_loop print_special token_timestamps eot i (seg_tokens seg) v
      in segment_loop print_special token_timestamps eot (i + 1) rest v)"

definition empty_vectors :: result_vectors where
  "empty_vectors =
     \<lparr> token_segment_nr = [], token_segment_text = [], token_segment_probability = [],
       token_segment_from = [], token_segment_to = [],
       segment_nr = [], transcriptions = [], transcriptions_from = [], transcriptions_to = [] \<rparr>"

text \<open>
  The returned list (source lines 410-444): the segment table \<open>data\<close>, the token table
  \<open>tokens\<close>, whose columns \<open>token_from\<close> and \<open>token_to\<close> exist only with
  \<open>token_timestamps\<close>, and the echoed parameters.
\<close>

record data_frame =
  data_segment :: "int list"
  data_from :: "string list"
  data_to :: "string list"
  data_text :: "string list"

record tokens_frame =
  tokens_segment :: "int list"
  tokens_token :: "string list"
  tokens_token_prob :: "rat list"
  tokens_token_from :: "string list option"
  tokens_token_to :: "string list option"

record params_list =
  out_audio :: string
  out_language :: string
  out_offset :: int
  out_duration :: int
  out_translate :: bool
  out_token_timestamps :: bool
  out_word_threshold :: rat

record encode_output =
  out_n_segments :: int
  out_data :: data_frame
  out_tokens :: tokens_frame
  out_params :: params_list

definition make_output ::
    "whisper_context \<Rightarrow> whisper_params \<Rightarrow> string \<Rightarrow> bool \<Rightarrow> int \<Rightarrow> int \<Rightarrow> encode_output"
where
  "make_output ctx params path token_timestamps offset duration =
     (let n_segments = int (length (ctx_segments ctx));
          v = segment_loop (p_print_special params) token_timestamps (whisper_token_eot ctx) 0
                (ctx_segments ctx) empty_vectors;
          tokens =
            (if token_timestamps
             then \<lparr> tokens_segment = token_segment_nr v, tokens_token = token_segment_text v,
                    tokens_token_prob = token_segment_probability v,
                    tokens_token_from = Some (token_segment_from v),
                    tokens_token_to = Some (token_segment_to v) \<rparr>
             else \<lparr> tokens_segment = token_segment_nr v, tokens_token = token_segment_text v,
                    tokens_token_prob = token_segment_probability v,
                    tokens_token_from = None, tokens_token_to = None \<rparr>)
      in \<lparr> out_n_segments = n_segments,
           out_data = \<lparr> data_segment = segment_nr v, data_from = transcriptions_from v,
                        data_to = transcriptions_to v, data_text = transcriptions v \<rparr>,
           out_tokens = tokens,
           out_params = \<lparr> out_audio = path, out_language = p_language params,
                          out_offset = offset, out_duration = duration,
                          out_translate = p_translate params,
                          out_token_timestamps = token_timestamps,
                          out_word_threshold = p_word_thold params \<rparr> \<rparr>)"

section \<open>\<open>whisper_encode\<close>\<close>

text \<open>
  Source lines 209-445. The arguments are those of the source in its order, after the
  environment and with the context that the model handle owns in place of the handle.
  The result is the trace of the call, the context afterwards, and the error that
  stops the call or the list returned to R.
\<close>

definition whisper_encode ::
    "env \<Rightarrow> whisper_context \<Rightarrow> string \<Rightarrow> string \<Rightarrow> bool \<Rightarrow> bool \<Rightarrow> bool \<Rightarrow> int \<Rightarrow> int
     \<Rightarrow> bool \<Rightarrow> int \<Rightarrow> int \<Rightarrow> event list \<times> whisper_context \<times> (error + encode_output)"
where
  "whisper_encode e ctx path language token_timestamps translate print_special duration offset
       trace n_threads n_processors =
     (let params = encode_params (hardware_concurrency e) path language translate print_special
                     duration offset n_threads n_processors
      in if p_fname_inp params = [] then
           ([], ctx, Inl (Rcpp_stop ''error: no input files specified'' []))
         else if whisper_lang_id e (p_language params) = - 1 then
           ([], ctx, Inl (Rcpp_stop ''Unknown language'' []))
         else
           (case process_files e token_timestamps trace ctx params (p_fname_inp params) of
              (evs, ctx', Inl err) \<Rightarrow> (evs, ctx', Inl err)
            | (evs, ctx', Inr params') \<Rightarrow>
                (evs, ctx', Inr (make_output ctx' params' path token_timestamps offset duration))))"

section \<open>Reading the result of a call\<close>

definition trace_of :: "event list \<times> whisper_context \<times> (error + encode_output) \<Rightarrow> event list" where
  "trace_of r = fst r"

definition context_after ::
    "event list \<times> whisper_context \<times> (error + encode_output) \<Rightarrow> whisper_context" where
  "context_after r = fst (snd r)"

definition returned ::
    "event list \<times> whisper_context \<times> (error + encode_output) \<Rightarrow> encode_output option" where
  "returned r = (case snd (snd r) of Inl err \<Rightarrow> None | Inr out \<Rightarrow> Some out)"

definition raised :: "event list \<times> whisper_context \<times> (error + encode_output) \<Rightarrow> error option" where
  "raised r = (case snd (snd r) of Inl err \<Rightarrow> Some err | Inr out \<Rightarrow> None)"

text \<open>The calls of the engine's decode entry point in a trace.\<close>

fun is_engine_call :: "event \<Rightarrow> bool" where
  "is_engine_call (Call_whisper_full_parallel wparams pcmf32 n_processors) = True"
| "is_engine_call ev = False"

text \<open>
  The speaker string that a printed segment line carries: the third argument of the
  plain format of source line 178, the first argument of the coloured format of line
  172. Other events carry none.
\<close>

fun printed_speaker :: "event \<Rightarrow> string option" where
  "printed_speaker (Rprintf fmt args) =
     (if fmt = ''[%s --> %s]  %s%s'' @ [CHR 0x0A] then Some (args ! 2)
      else if fmt = ''%s%s%s%s'' then Some (args ! 0)
      else None)"
| "printed_speaker ev = None"

text \<open>
  The rows of the token table as the specification describes them: the tokens of all
  segments in order, each with the 1-based number of its segment, without the tokens
  whose id is at or above the end-of-text sentinel unless \<open>print_special\<close> is set.
\<close>

definition spec_token_rows ::
    "bool \<Rightarrow> int \<Rightarrow> whisper_segment list \<Rightarrow> (int \<times> whisper_token_data) list" where
  "spec_token_rows print_special eot segs =
     concat (map (\<lambda>(k, seg). map (Pair (int k + 1))
                    (filter (\<lambda>token. print_special \<or> tok_id token < eot) (seg_tokens seg)))
               (enumerate 0 segs))"

section \<open>The statements of the specification\<close>

text \<open>
  The timestamp as the specification words it: \<open>HH:MM:SS.mmm\<close>, the zero-padded
  hours, minutes, seconds and milliseconds of \<open>t * 10\<close> milliseconds.
\<close>

definition two_digits :: "nat \<Rightarrow> string" where
  "two_digits n = [digit_char (n div 10), digit_char (n mod 10)]"

definition three_digits :: "nat \<Rightarrow> string" where
  "three_digits n = [digit_char (n div 100), digit_char (n div 10 mod 10), digit_char (n mod 10)]"

definition spec_timestamp :: "int \<Rightarrow> string" where
  "spec_timestamp t =
     (let ms = nat (t * 10)
      in two_digits (ms div 3600000) @ '':'' @ two_digits (ms div 60000 mod 60) @ '':'' @
         two_digits (ms div 1000 mod 60) @ ''.'' @ three_digits (ms mod 1000))"

text \<open>
  The speaker label as the specification words it, read on unbounded integers and
  exact numbers: the sample index of a tick is
  \<open>clamp(tick * sample_rate / 100, 0, n_samples - 1)\<close>; the energy of a channel is the
  sum of the absolute sample values over the index range from the first index up to,
  and without, the second; the label compares the two energies with the factor 1.1.
\<close>

definition spec_clamp :: "int \<Rightarrow> int \<Rightarrow> int \<Rightarrow> int" where
  "spec_clamp x lo hi = max lo (min hi x)"

definition spec_energy :: "rat list \<Rightarrow> int \<Rightarrow> int \<Rightarrow> rat" where
  "spec_energy ch a b = (\<Sum>j\<leftarrow>[nat a..<nat b]. \<bar>ch ! j\<bar>)"

definition spec_speaker :: "rat list \<Rightarrow> rat list \<Rightarrow> int \<Rightarrow> int \<Rightarrow> string" where
  "spec_speaker ch0 ch1 t0 t1 =
     (let n_samples = int (length ch0);
          a = spec_clamp (t0 * 16000 div 100) 0 (n_samples - 1);
          b = spec_clamp (t1 * 16000 div 100) 0 (n_samples - 1);
          energy0 = spec_energy ch0 a b;
          energy1 = spec_energy ch1 a b
      in if energy0 > 11 / 10 * energy1 then ''(speaker 0)''
         else if energy1 > 11 / 10 * energy0 then ''(speaker 1)''
         else ''(speaker ?)'')"

text \<open>
  The same description read in double precision: the energy is the running sum in
  index order, rounded after every addition, and the factor is the \<open>double\<close> nearest to
  1.1, with the product rounded. The indices are as above, on unbounded integers.
\<close>

definition spec_energy_double :: "rat list \<Rightarrow> int \<Rightarrow> int \<Rightarrow> rat" where
  "spec_energy_double ch a b =
     foldl (\<lambda>energy j. round_double (energy + \<bar>ch ! j\<bar>)) 0 [nat a..<nat b]"

definition spec_speaker_double :: "rat list \<Rightarrow> rat list \<Rightarrow> int \<Rightarrow> int \<Rightarrow> string" where
  "spec_speaker_double ch0 ch1 t0 t1 =
     (let n_samples = int (length ch0);
          a = spec_clamp (t0 * 16000 div 100) 0 (n_samples - 1);
          b = spec_clamp (t1 * 16000 div 100) 0 (n_samples - 1);
          energy0 = spec_energy_double ch0 a b;
          energy1 = spec_energy_double ch1 a b
      in if energy0 > round_double (double_1_1 * energy1) then ''(speaker 0)''
         else if energy1 > round_double (double_1_1 * energy0) then ''(speaker 1)''
         else ''(speaker ?)'')"

text \<open>Exchanging the two speakers in a label; the ambiguous label stays.\<close>

definition swap_speaker :: "string \<Rightarrow> string" where
  "swap_speaker s =
     (if s = ''(speaker 0)'' then ''(speaker 1)''
      else if s = ''(speaker 1)'' then ''(speaker 0)'' else s)"

section \<open>Example inputs\<close>

definition ex_diarize_params :: whisper_params where
  "ex_diarize_params = (default_whisper_params 8)\<lparr>p_diarize := True\<rparr>"

text \<open>
  Two channels of four samples. The first three samples of \<open>ex_loud\<close> are values of
  type \<open>float\<close>; their sum, exact in \<open>double\<close>, is half the \<open>double\<close> nearest to 1.1.
\<close>

definition ex_loud :: "rat list" where
  "ex_loud = [2306867 / 4194304, 3355443 / 70368744177664, 13 / 4503599627370496, 0]"

definition ex_quiet :: "rat list" where
  "ex_quiet = [1 / 2, 0, 0, 0]"

definition ex_color_params :: whisper_params where
  "ex_color_params = (default_whisper_params 8)\<lparr>p_print_colors := True, p_no_timestamps := True\<rparr>"

text \<open>
  A mono file of four samples, a file with three channels, a model that is not
  multilingual, and an engine that accepts \<open>en\<close> and \<open>de\<close> and decodes every buffer to
  one segment of three tokens, the last of them the end-of-text token.
\<close>

definition ex_wav :: drwav where
  "ex_wav = \<lparr> wav_channels = 1, wav_sampleRate = 16000, wav_bitsPerSample = 16,
              wav_totalPCMFrameCount = 4, wav_frames = [0, 16384, - 16384, 32767] \<rparr>"

definition ex_wav_3ch :: drwav where
  "ex_wav_3ch = ex_wav\<lparr>wav_channels := 3\<rparr>"

definition ex_tokens :: "whisper_token_data list" where
  "ex_tokens =
     [\<lparr> tok_id = 100, tok_text = '' Hello'', tok_p = 9 / 10, tok_t0 = 0, tok_t1 = 250 \<rparr>,
      \<lparr> tok_id = 200, tok_text = '' world'', tok_p = 1, tok_t0 = 250, tok_t1 = 500 \<rparr>,
      \<lparr> tok_id = 50256, tok_text = ''[_EOT_]'', tok_p = 1 / 2, tok_t0 = 500, tok_t1 = 500 \<rparr>]"

definition ex_segments :: "whisper_segment list" where
  "ex_segments =
     [\<lparr> seg_t0 = 0, seg_t1 = 500, seg_text = '' Hello world'', seg_tokens = ex_tokens \<rparr>]"

definition ex_ctx :: whisper_context where
  "ex_ctx = \<lparr> whisper_is_multilingual = False, whisper_token_eot = 50256, ctx_segments = [] \<rparr>"

definition ex_wparams :: whisper_full_params where
  "ex_wparams =
     \<lparr> wp_print_realtime = False, wp_print_progress = True, wp_print_timestamps = True,
       wp_print_special = False, wp_translate = False, wp_language = ''en'',
       wp_n_threads = 4, wp_n_max_text_ctx = 16384, wp_offset_ms = 0, wp_duration_ms = 0,
       wp_token_timestamps = False, wp_thold_pt = 1 / 100, wp_max_len = 0,
       wp_speed_up = False, wp_new_segment_callback = False,
       wp_encoder_begin_callback = False \<rparr>"

definition ex_env :: env where
  "ex_env =
     \<lparr> hardware_concurrency = 8,
       whisper_lang_id = (\<lambda>l. if l = ''en'' then 0 else if l = ''de'' then 2 else - 1),
       drwav_init_file = (\<lambda>f. if f = ''speech.wav'' then Some ex_wav
                               else if f = ''surround.wav'' then Some ex_wav_3ch else None),
       whisper_full_default_params = ex_wparams,
       whisper_full_parallel = (\<lambda>ctx wparams pcmf32 n_processors.
          \<lparr> run_new_segments = [(ctx\<lparr>ctx_segments := ex_segments\<rparr>, 1)], run_ret = 0,
            run_ctx = ctx\<lparr>ctx_segments := ex_segments\<rparr> \<rparr>) \<rparr>"

section \<open>Timestamps\<close>

lemma to_dec_small: "n < 10 \<Longrightarrow> to_dec n = [digit_char n]"
  by (subst to_dec.simps) simp

text \<open>
  Claim C4, the part that the code contradicts: \<open>to_timestamp(6000)\<close> is not
  \<open>01:00:00.000\<close>. 6000 ticks are 60 seconds, and the result is \<open>00:01:00.000\<close>.
\<close>

theorem to_timestamp_6000_counterexample:
  "to_timestamp 6000 False \<noteq> ''01:00:00.000''"
  by code_simp

text \<open>
  Claim C4, amended: \<open>to_timestamp(0)\<close> is \<open>00:00:00.000\<close>, \<open>to_timestamp(500)\<close> is
  \<open>00:00:05.000\<close> and \<open>to_timestamp(6000)\<close> is \<open>00:01:00.000\<close>; the second argument
  has its default value \<open>false\<close>.
\<close>

theorem to_timestamp_examples:
  "to_timestamp 0 False = ''00:00:00.000''
   \<and> to_timestamp 500 False = ''00:00:05.000''
   \<and> to_timestamp 6000 False = ''00:01:00.000''"
  by code_simp

lemma i64_id: "- (2 ^ 63) \<le> x \<Longrightarrow> x < 2 ^ 63 \<Longrightarrow> i64 x = x"
  by (simp add: i64_def)

lemma i32_id: "- (2 ^ 31) \<le> x \<Longrightarrow> x < 2 ^ 31 \<Longrightarrow> i32 x = x"
  by (simp add: i32_def)

lemma c_div_nonneg: "0 \<le> a \<Longrightarrow> 0 < b \<Longrightarrow> c_div a b = a div b"
  by (cases "a = 0") (simp_all add: c_div_def)

lemma printf_0d_two: "0 \<le> n \<Longrightarrow> n < 100 \<Longrightarrow> printf_0d 2 n = two_digits (nat n)"
proof -
  assume n: "0 \<le> n" "n < 100"
  show ?thesis
  proof (cases "n < 10")
    case True
    with n have "to_dec (nat n) = [digit_char (nat n)]" by (simp add: to_dec_small)
    with n True show ?thesis by (simp add: printf_0d_def two_digits_def digit_char_def)
  next
    case False
    with n have "nat n div 10 < 10" by simp
    with False n have "to_dec (nat n) = [digit_char (nat n div 10), digit_char (nat n mod 10)]"
      by (subst to_dec.simps) (simp add: to_dec_small)
    with n show ?thesis by (simp add: printf_0d_def two_digits_def)
  qed
qed

lemma to_dec_three: "100 \<le> n \<Longrightarrow> n < 1000 \<Longrightarrow> to_dec n = three_digits n"
proof -
  assume n: "100 \<le> n" "n < 1000"
  then have a: "n div 10 div 10 < 10" "\<not> n div 10 < 10" "\<not> n < 10" by simp_all
  have "to_dec n = to_dec (n div 10) @ [digit_char (n mod 10)]"
    using a by (subst to_dec.simps) simp
  also have "to_dec (n div 10) = to_dec (n div 10 div 10) @ [digit_char (n div 10 mod 10)]"
    using a by (subst to_dec.simps) simp
  also have "to_dec (n div 10 div 10) = [digit_char (n div 10 div 10)]"
    using a by (simp add: to_dec_small)
  finally show ?thesis by (simp add: three_digits_def div_mult2_eq[symmetric])
qed

lemma printf_0d_three: "0 \<le> n \<Longrightarrow> n < 1000 \<Longrightarrow> printf_0d 3 n = three_digits (nat n)"
proof -
  assume n: "0 \<le> n" "n < 1000"
  consider "n < 10" | "10 \<le> n" "n < 100" | "100 \<le> n" by linarith
  then show ?thesis
  proof cases
    case 1
    with n have "to_dec (nat n) = [digit_char (nat n)]" by (simp add: to_dec_small)
    with n 1 show ?thesis
      by (simp add: printf_0d_def three_digits_def digit_char_def numeral_2_eq_2)
  next
    case 2
    with n have "nat n div 10 < 10" by simp
    with 2 n have "to_dec (nat n) = [digit_char (nat n div 10), digit_char (nat n mod 10)]"
      by (subst to_dec.simps) (simp add: to_dec_small)
    with n 2 show ?thesis by (simp add: printf_0d_def three_digits_def digit_char_def)
  next
    case 3
    with n have "to_dec (nat n) = three_digits (nat n)" by (intro to_dec_three) simp_all
    with n show ?thesis by (simp add: printf_0d_def three_digits_def)
  qed
qed

lemma to_timestamp_split:
  assumes "0 \<le> m" "m < 2 ^ 31 * 3600000"
  shows "(let msec = m;
          hr = c_div msec (1000 * 60 * 60);
          msec = msec - hr * (1000 * 60 * 60);
          mn = c_div msec (1000 * 60);
          msec = msec - mn * (1000 * 60);
          sec = c_div msec 1000;
          msec = msec - sec * 1000
      in f hr mn sec msec) = f (m div 3600000) (m div 60000 mod 60) (m div 1000 mod 60) (m mod 1000)"
proof -
  have hr: "c_div m (1000 * 60 * 60) = m div 3600000"
    using assms by (simp add: c_div_nonneg)
  have m1: "m - m div 3600000 * (1000 * 60 * 60) = m mod 3600000"
    by (simp add: minus_div_mult_eq_mod)
  have mn: "c_div (m mod 3600000) (1000 * 60) = m div 60000 mod 60"
  proof -
    have "c_div (m mod 3600000) (1000 * 60) = (m mod 3600000) div 60000"
      by (simp add: c_div_nonneg)
    also have "\<dots> = m div 60000 mod 60"
      using zmod_zmult2_eq[of 60 m 60000] by simp
    finally show ?thesis .
  qed
  have m2: "m mod 3600000 - m div 60000 mod 60 * (1000 * 60) = m mod 60000"
    using zmod_zmult2_eq[of 60 m 60000] by simp
  have sec: "c_div (m mod 60000) 1000 = m div 1000 mod 60"
  proof -
    have "c_div (m mod 60000) 1000 = (m mod 60000) div 1000"
      by (simp add: c_div_nonneg)
    also have "\<dots> = m div 1000 mod 60"
      using zmod_zmult2_eq[of 60 m 1000] by simp
    finally show ?thesis .
  qed
  have m3: "m mod 60000 - m div 1000 mod 60 * 1000 = m mod 1000"
    using zmod_zmult2_eq[of 60 m 1000] by simp
  show ?thesis
    unfolding Let_def hr m1 mn m2 sec m3 ..
qed


lemma to_timestamp_in_range:
  assumes m: "m = t * 10" and r: "0 \<le> m" "m < 360000000"
  shows "to_timestamp t comma =
         two_digits (nat m div 3600000) @ '':'' @ two_digits (nat m div 60000 mod 60) @ '':'' @
         two_digits (nat m div 1000 mod 60) @ (if comma then '','' else ''.'') @
         three_digits (nat m mod 1000)"
proof -
  have m64: "i64 (t * 10) = m" unfolding m[symmetric] using r by (intro i64_id) simp_all
  have hr: "0 \<le> m div 3600000" "m div 3600000 < 100" using r by simp_all
  have mn: "0 \<le> m div 60000 mod 60" "m div 60000 mod 60 < 100"
    by simp (rule less_trans[OF pos_mod_bound], simp_all)
  have sec: "0 \<le> m div 1000 mod 60" "m div 1000 mod 60 < 100"
    by simp (rule less_trans[OF pos_mod_bound], simp_all)
  have ms: "0 \<le> m mod 1000" "m mod 1000 < 1000" by simp_all
  have n1: "nat (m div 3600000) = nat m div 3600000"
    using r by (simp add: nat_div_distrib)
  have n2: "nat (m div 60000 mod 60) = nat m div 60000 mod 60"
    using r by (simp add: nat_div_distrib nat_mod_distrib)
  have n3: "nat (m div 1000 mod 60) = nat m div 1000 mod 60"
    using r by (simp add: nat_div_distrib nat_mod_distrib)
  have n4: "nat (m mod 1000) = nat m mod 1000"
    using r by (simp add: nat_mod_distrib)
  have len: "length (two_digits a @ '':'' @ two_digits b @ '':'' @ two_digits c
                     @ (if comma then '','' else ''.'') @ three_digits d) \<le> 31" for a b c d
    by (simp add: two_digits_def three_digits_def)
  have "to_timestamp t comma =
        take 31 (printf_0d 2 (i32 (m div 3600000)) @ '':'' @
                 printf_0d 2 (i32 (m div 60000 mod 60)) @ '':'' @
                 printf_0d 2 (i32 (m div 1000 mod 60)) @ (if comma then '','' else ''.'') @
                 printf_0d 3 (i32 (m mod 1000)))"
    unfolding to_timestamp_def m64
    by (rule to_timestamp_split) (use r in simp_all)
  also have "i32 (m div 3600000) = m div 3600000" using hr by (intro i32_id) simp_all
  also have "i32 (m div 60000 mod 60) = m div 60000 mod 60" using mn by (intro i32_id) simp_all
  also have "i32 (m div 1000 mod 60) = m div 1000 mod 60" using sec by (intro i32_id) simp_all
  also have "i32 (m mod 1000) = m mod 1000" using ms by (intro i32_id) simp_all
  also have "printf_0d 2 (m div 3600000) = two_digits (nat m div 3600000)"
    using printf_0d_two[OF hr] unfolding n1 .
  also have "printf_0d 2 (m div 60000 mod 60) = two_digits (nat m div 60000 mod 60)"
    using printf_0d_two[OF mn] unfolding n2 .
  also have "printf_0d 2 (m div 1000 mod 60) = two_digits (nat m div 1000 mod 60)"
    using printf_0d_two[OF sec] unfolding n3 .
  also have "printf_0d 3 (m mod 1000) = three_digits (nat m mod 1000)"
    using printf_0d_three[OF ms] unfolding n4 .
  finally show ?thesis
    using len by (simp only: take_all)
qed

text \<open>
  Claim C5: for every tick value \<open>t \<ge> 0\<close> with \<open>t * 10\<close> milliseconds below 100
  hours, \<open>to_timestamp(t)\<close> is \<open>HH:MM:SS.mmm\<close>, the zero-padded hours, minutes,
  seconds and milliseconds of \<open>t * 10\<close> milliseconds: one tick is 10 milliseconds.
\<close>

theorem to_timestamp_format:
  assumes "0 \<le> t" "t * 10 < 100 * (1000 * 60 * 60)"
  shows "to_timestamp t False = spec_timestamp t"
proof -
  have "to_timestamp t False =
         two_digits (nat (t * 10) div 3600000) @ '':'' @
         two_digits (nat (t * 10) div 60000 mod 60) @ '':'' @
         two_digits (nat (t * 10) div 1000 mod 60) @ (if False then '','' else ''.'') @
         three_digits (nat (t * 10) mod 1000)"
    by (rule to_timestamp_in_range[OF refl]) (use assms in simp_all)
  then show ?thesis
    unfolding spec_timestamp_def Let_def by (simp only: if_False)
qed

lemma spec_timestamp_example: "spec_timestamp 123456 = ''00:20:34.560''"
  by (simp add: spec_timestamp_def two_digits_def three_digits_def digit_char_def)

text \<open>Claim C5 at 123456 ticks, which are 20 minutes and 34.56 seconds.\<close>

theorem to_timestamp_format_witness:
  "(0::int) \<le> 123456 \<and> (123456::int) * 10 < 100 * (1000 * 60 * 60)
   \<and> to_timestamp 123456 False = ''00:20:34.560''"
proof -
  have h1: "(0::int) \<le> 123456" by simp
  have h2: "(123456::int) * 10 < 100 * (1000 * 60 * 60)" by simp
  from to_timestamp_format[OF h1 h2] spec_timestamp_example h1 h2
  show ?thesis by (simp only: simp_thms)
qed

section \<open>Rounding to double precision\<close>

lemma round_half_even_of_int: "round_half_even (of_int n) = n"
  by (simp add: round_half_even_def)

lemma round_half_even_bounds: "\<lfloor>x\<rfloor> \<le> round_half_even x" "round_half_even x \<le> \<lfloor>x\<rfloor> + 1"
  by (simp_all add: round_half_even_def Let_def)

lemma round_half_even_mono:
  assumes "x \<le> y"
  shows "round_half_even x \<le> round_half_even y"
proof (cases "\<lfloor>x\<rfloor> = \<lfloor>y\<rfloor>")
  case True
  with assms have "x - of_int \<lfloor>x\<rfloor> \<le> y - of_int \<lfloor>y\<rfloor>" by simp
  then show ?thesis using True by (auto simp: round_half_even_def Let_def)
next
  case False
  with assms have "\<lfloor>x\<rfloor> + 1 \<le> \<lfloor>y\<rfloor>" using floor_mono[OF assms] by linarith
  with round_half_even_bounds(2)[of x] round_half_even_bounds(1)[of y] show ?thesis by linarith
qed

lemma binade_bounds:
  assumes "0 < x"
  shows "2 powi (binade x) \<le> x" "x < 2 powi (binade x + 1)"
proof -
  obtain a b where q: "quotient_of x = (a, b)" by (cases "quotient_of x")
  then have b: "0 < b" and x: "x = of_int a / of_int b"
    by (auto dest: quotient_of_denom_pos quotient_of_div)
  with assms have a: "0 < a" by (simp add: zero_less_divide_iff)
  define la lb where "la = nat (bitlen a)" and "lb = nat (bitlen b)"
  have la: "bitlen a = int la" and lb: "bitlen b = int lb"
    by (simp_all add: la_def lb_def bitlen_nonneg)
  have la1: "1 \<le> la" and lb1: "1 \<le> lb"
    using a b bitlen_eq_zero_iff[of a] bitlen_eq_zero_iff[of b] la lb by (simp_all; linarith)+
  from bitlen_bounds[OF a] have ia: "2 ^ (la - 1) \<le> a" "a < 2 ^ la"
    using la1 by (simp_all add: la nat_diff_distrib)
  from bitlen_bounds[OF b] have ib: "2 ^ (lb - 1) \<le> b" "b < 2 ^ lb"
    using lb1 by (simp_all add: lb nat_diff_distrib)
  have ra: "(2::rat) ^ (la - 1) \<le> of_int a" "(of_int a :: rat) < 2 ^ la"
    using ia by (metis of_int_le_iff of_int_numeral of_int_power, metis of_int_less_iff of_int_numeral of_int_power)
  have rb: "(2::rat) ^ (lb - 1) \<le> of_int b" "(of_int b :: rat) < 2 ^ lb"
    using ib by (metis of_int_le_iff of_int_numeral of_int_power, metis of_int_less_iff of_int_numeral of_int_power)
  have up: "x < 2 powi (int la - int lb + 1)"
  proof -
    have "x < 2 ^ la / 2 ^ (lb - 1)"
      unfolding x using ra rb a b by (intro frac_less) simp_all
    also have "\<dots> = 2 powi (int la - int (lb - 1))"
      by (simp add: power_int_diff)
    also have "int la - int (lb - 1) = int la - int lb + 1" using lb1 by simp
    finally show ?thesis .
  qed
  have lo: "2 powi (int la - int lb - 1) \<le> x"
  proof -
    have "(2::rat) ^ (la - 1) / 2 ^ lb \<le> x"
      unfolding x using ra rb a b by (intro frac_le) simp_all
    moreover have "(2::rat) ^ (la - 1) / 2 ^ lb = 2 powi (int (la - 1) - int lb)"
      by (simp add: power_int_diff)
    moreover have "int (la - 1) - int lb = int la - int lb - 1" using la1 by simp
    ultimately show ?thesis by (simp only:)
  qed
  have bd: "binade x = (if 2 powi (int la - int lb) \<le> x then int la - int lb else int la - int lb - 1)"
    by (simp add: binade_def q la lb Let_def)
  show "2 powi (binade x) \<le> x" using lo by (simp add: bd)
  show "x < 2 powi (binade x + 1)" using up by (auto simp: bd)
qed

lemma binade_le:
  assumes "0 < x" "x < 2 powi (e + 1)"
  shows "binade x \<le> e"
proof (rule ccontr)
  assume "\<not> binade x \<le> e"
  then have "e + 1 \<le> binade x" by simp
  then have "(2::rat) powi (e + 1) \<le> 2 powi (binade x)" by (intro power_int_increasing) simp_all
  with binade_bounds(1)[OF assms(1)] assms(2) show False by simp
qed

lemma binade_ge:
  assumes "0 < x" "2 powi e \<le> x"
  shows "e \<le> binade x"
proof (rule ccontr)
  assume "\<not> e \<le> binade x"
  then have "binade x + 1 \<le> e" by simp
  then have "(2::rat) powi (binade x + 1) \<le> 2 powi e" by (intro power_int_increasing) simp_all
  with binade_bounds(2)[OF assms(1)] assms(2) show False by simp
qed

lemma binade_mono: "0 < x \<Longrightarrow> x \<le> y \<Longrightarrow> binade x \<le> binade y"
  using binade_bounds(1)[of x] by (intro binade_ge) simp_all

lemma ulp_pos: "0 < ulp x"
  by (simp add: ulp_def)

lemma round_double_pos:
  "0 < x \<Longrightarrow> round_double x = ulp x * of_int (round_half_even (x / ulp x))"
  by (simp add: round_double_def)

lemma round_half_even_nonneg: "0 \<le> x \<Longrightarrow> 0 \<le> round_half_even x"
  using round_half_even_mono[of 0 x] round_half_even_of_int[of 0] by simp

lemma round_double_nonneg: "0 \<le> x \<Longrightarrow> 0 \<le> round_double x"
proof (cases "x = 0")
  case True
  then show ?thesis by (simp add: round_double_def)
next
  case False
  assume "0 \<le> x"
  with False have x: "0 < x" by simp
  have "0 \<le> x / ulp x" using x ulp_pos[of x] by simp
  then have "0 \<le> round_half_even (x / ulp x)" by (rule round_half_even_nonneg)
  then show ?thesis
    unfolding round_double_pos[OF x] using ulp_pos[of x] by simp
qed

lemma powi_split: "(2::rat) powi e = 2 powi (e - 52) * 2 ^ 52"
proof -
  have "(2::rat) powi e = 2 powi ((e - 52) + 52)" by simp
  also have "\<dots> = 2 powi (e - 52) * 2 powi 52" by (subst power_int_add) simp_all
  finally show ?thesis by simp
qed

lemma round_double_ge:
  assumes w: "0 \<le> w" "round_double w = w" and z: "w \<le> z"
  shows "w \<le> round_double z"
proof (cases "w = 0")
  case True
  with z round_double_nonneg[of z] show ?thesis by simp
next
  case False
  with w have wp: "0 < w" by simp
  with z have zp: "0 < z" by simp
  let ?ew = "max (binade w) (- 1022)"
  let ?ez = "max (binade z) (- 1022)"
  have le: "?ew \<le> ?ez" using binade_mono[OF wp z] by simp
  show ?thesis
  proof (cases "?ew = ?ez")
    case True
    then have u: "ulp z = ulp w" by (simp add: ulp_def)
    have "w / ulp w \<le> z / ulp w" using z ulp_pos[of w] by (simp add: divide_right_mono)
    then have "round_half_even (w / ulp w) \<le> round_half_even (z / ulp w)"
      by (rule round_half_even_mono)
    then have "ulp w * of_int (round_half_even (w / ulp w))
               \<le> ulp w * of_int (round_half_even (z / ulp w))"
      using ulp_pos[of w] by simp
    then show ?thesis
      using w(2) unfolding round_double_pos[OF wp] round_double_pos[OF zp] u by simp
  next
    case False
    with le have lt: "?ew + 1 \<le> ?ez" by simp
    then have ez: "?ez = binade z" by simp
    have "2 powi ?ez \<le> z" unfolding ez using binade_bounds(1)[OF zp] .
    then have "2 powi (?ez - 52) * 2 ^ 52 \<le> z" using powi_split[of ?ez] by simp
    then have "2 ^ 52 \<le> z / ulp z"
      using ulp_pos[of z] by (simp add: ulp_def pos_le_divide_eq mult.commute)
    then have "of_int (2 ^ 52) \<le> z / ulp z" by simp
    from round_half_even_mono[OF this] have "2 ^ 52 \<le> round_half_even (z / ulp z)"
      by (simp only: round_half_even_of_int)
    then have "(2::rat) ^ 52 \<le> of_int (round_half_even (z / ulp z))"
      by (metis of_int_le_iff of_int_numeral of_int_power)
    then have "ulp z * 2 ^ 52 \<le> ulp z * of_int (round_half_even (z / ulp z))"
      using ulp_pos[of z] by simp
    then have "2 powi ?ez \<le> round_double z"
      unfolding round_double_pos[OF zp] using powi_split[of ?ez] by (simp add: ulp_def)
    moreover have "w < 2 powi (binade w + 1)" using binade_bounds(2)[OF wp] .
    moreover have "(2::rat) powi (binade w + 1) \<le> 2 powi ?ez"
      using lt by (intro power_int_increasing) simp_all
    ultimately show ?thesis by linarith
  qed
qed

lemma round_double_of_multiple:
  assumes "0 < n" "max (binade (q * of_int n)) (- 1022) - 52 = eq - int k"
    and q: "q = 2 powi eq"
  shows "round_double (q * of_int n) = q * of_int n"
proof -
  have qp: "0 < q" by (simp add: q)
  have rp: "0 < q * of_int n" using assms(1) qp by simp
  have u: "ulp (q * of_int n) = 2 powi (eq - int k)" by (simp add: ulp_def assms(2))
  have "(2::rat) powi eq = 2 powi ((eq - int k) + int k)" by simp
  also have "\<dots> = 2 powi (eq - int k) * 2 ^ k" by (subst power_int_add) simp_all
  finally have qk: "q = 2 powi (eq - int k) * 2 ^ k" by (simp add: q)
  have "q * of_int n / ulp (q * of_int n) = 2 ^ k * of_int n"
    unfolding u by (subst qk) simp
  also have "\<dots> = of_int (2 ^ k * n)" by simp
  finally have "round_half_even (q * of_int n / ulp (q * of_int n)) = 2 ^ k * n"
    by (simp only: round_half_even_of_int)
  then have "round_double (q * of_int n) = 2 powi (eq - int k) * of_int (2 ^ k * n)"
    unfolding round_double_pos[OF rp] u by simp
  also have "\<dots> = (2 powi (eq - int k) * 2 ^ k) * of_int n" by simp
  also have "\<dots> = q * of_int n" by (simp only: qk[symmetric])
  finally show ?thesis .
qed

lemma round_double_idem:
  assumes "0 \<le> y"
  shows "round_double (round_double y) = round_double y"
proof (cases "y = 0")
  case True
  then show ?thesis by (simp add: round_double_def)
next
  case False
  with assms have yp: "0 < y" by simp
  define e where "e = max (binade y) (- 1022)"
  define q :: rat where "q = 2 powi (e - 52)"
  define n where "n = round_half_even (y / q)"
  have uq: "ulp y = q" by (simp add: ulp_def q_def e_def)
  have qp: "0 < q" by (simp add: q_def)
  have r: "round_double y = q * of_int n"
    unfolding round_double_pos[OF yp] uq n_def ..
  have e: "- 1022 \<le> e" "binade y \<le> e" by (simp_all add: e_def)
  have n0: "0 \<le> n" unfolding n_def using yp qp by (intro round_half_even_nonneg) simp
  have top: "q * 2 ^ 53 = 2 powi (e + 1)"
  proof -
    have "e + 1 = (e - 52) + 53" by simp
    then have "(2::rat) powi (e + 1) = 2 powi ((e - 52) + 53)" by (simp only:)
    also have "\<dots> = 2 powi (e - 52) * 2 powi 53" by (subst power_int_add) simp_all
    finally show ?thesis by (simp add: q_def)
  qed
  have "y < 2 powi (binade y + 1)" using binade_bounds(2)[OF yp] .
  also have "\<dots> \<le> 2 powi (e + 1)" using e by (intro power_int_increasing) simp_all
  finally have "y < q * 2 ^ 53" by (simp only: top)
  then have "y / q \<le> of_int (2 ^ 53)" using qp by (simp add: pos_divide_le_eq mult.commute)
  from round_half_even_mono[OF this] have n53: "n \<le> 2 ^ 53"
    unfolding n_def by (simp only: round_half_even_of_int)
  show ?thesis
  proof (cases "n = 0")
    case True
    have z: "round_double 0 = 0" by (simp add: round_double_def)
    show ?thesis unfolding r True by (simp add: z)
  next
    case False
    with n0 have np: "0 < n" by simp
    then have rp: "0 < q * of_int n" using qp by simp
    show ?thesis
    proof (cases "n = 2 ^ 53")
      case True
      have "(of_int n :: rat) = 2 ^ 53" unfolding True by simp
      then have rv: "q * of_int n = 2 powi (e + 1)" by (simp only: top)
      have "binade (2 powi (e + 1) :: rat) = e + 1"
      proof (rule antisym)
        have "(2::rat) powi (e + 1) < 2 powi (e + 1 + 1)"
          by (intro power_int_strict_increasing) simp_all
        then show "binade (2 powi (e + 1) :: rat) \<le> e + 1" by (intro binade_le) simp_all
        show "e + 1 \<le> binade (2 powi (e + 1) :: rat)" by (intro binade_ge) simp_all
      qed
      have u: "ulp (q * of_int n) = q * 2"
      proof -
        have "ulp (q * of_int n) = 2 powi ((e - 52) + 1)"
          unfolding rv ulp_def \<open>binade (2 powi (e + 1) :: rat) = e + 1\<close> using e by simp
        also have "\<dots> = 2 powi (e - 52) * 2 powi 1" by (subst power_int_add) simp_all
        finally show ?thesis by (simp add: q_def)
      qed
      have "q * of_int n / ulp (q * of_int n) = q * of_int n / (q * 2)"
        by (simp only: u)
      also have "\<dots> = of_int (2 ^ 52)"
        using qp by (simp add: True)
      finally have "q * of_int n / ulp (q * of_int n) = of_int (2 ^ 52)" .
      then have "round_half_even (q * of_int n / ulp (q * of_int n)) = 2 ^ 52"
        by (simp only: round_half_even_of_int)
      then have "round_double (q * of_int n) = q * 2 * of_int (2 ^ 52)"
        unfolding round_double_pos[OF rp] u by simp
      also have "\<dots> = q * of_int n" by (simp add: True)
      finally show ?thesis unfolding r .
    next
      case False
      with n53 have "n < 2 ^ 53" by simp
      then have "(of_int n :: rat) < 2 ^ 53"
        by (metis of_int_less_iff of_int_numeral of_int_power)
      then have "q * of_int n < q * 2 ^ 53" using qp by simp
      then have "q * of_int n < 2 powi (e + 1)" by (simp only: top)
      from binade_le[OF rp this] have "max (binade (q * of_int n)) (- 1022) \<le> e"
        using e by simp
      then obtain k where k: "e - max (binade (q * of_int n)) (- 1022) = int k"
        using zero_le_imp_eq_int[of "e - max (binade (q * of_int n)) (- 1022)"] by auto
      then have "max (binade (q * of_int n)) (- 1022) - 52 = (e - 52) - int k" by simp
      from round_double_of_multiple[OF np this q_def] show ?thesis unfolding r .
    qed
  qed
qed

section \<open>The speaker label\<close>

lemma i32_le: "0 \<le> n \<Longrightarrow> i32 n \<le> n"
proof -
  assume "0 \<le> n"
  then have "(n + 2 ^ 31) mod 2 ^ 32 \<le> n + 2 ^ 31"
    by (intro zmod_le_nonneg_dividend) simp
  then show ?thesis by (simp add: i32_def)
qed

lemma timestamp_to_sample_bounds:
  assumes "0 \<le> n"
  shows "0 \<le> timestamp_to_sample t n" "timestamp_to_sample t n \<le> n"
proof -
  show "0 \<le> timestamp_to_sample t n" by (simp add: timestamp_to_sample_def)
  have "i32 n - 1 \<le> n" using i32_le[OF assms] by simp
  with assms show "timestamp_to_sample t n \<le> n"
    by (simp add: timestamp_to_sample_def)
qed

lemma c_div_exact: "0 < b \<Longrightarrow> c_div (a * b) b = a"
  by (cases "a = 0") (simp_all add: c_div_def abs_mult sgn_mult mult_sgn_abs)

lemma timestamp_to_sample_in_range:
  assumes n: "0 \<le> n" "n < 2 ^ 31" and t: "- (2 ^ 31) \<le> t * 160" "t * 160 < 2 ^ 31"
  shows "timestamp_to_sample t n = spec_clamp (t * 16000 div 100) 0 (n - 1)"
proof -
  have "i64 (t * 16000) = t * 16000" using t by (intro i64_id) simp_all
  moreover have "c_div (t * 16000) 100 = t * 160"
  proof -
    have "t * 16000 = t * 160 * 100" by simp
    then show ?thesis by (simp only: c_div_exact)
  qed
  moreover have "i32 (t * 160) = t * 160" using t by (rule i32_id)
  moreover have "i32 n = n" using n by (intro i32_id) simp_all
  moreover have "t * 16000 div 100 = t * 160" by simp
  ultimately show ?thesis
    by (simp add: timestamp_to_sample_def spec_clamp_def WHISPER_SAMPLE_RATE_def)
qed

lemma energy_loop_fold:
  assumes "0 \<le> j" "is1 \<le> int (length ch0)" "is1 \<le> int (length ch1)"
  shows "energy_loop ch0 ch1 j is1 (e0, e1) =
         Some (foldl (\<lambda>energy k. round_double (energy + \<bar>ch0 ! k\<bar>)) e0 [nat j..<nat is1],
               foldl (\<lambda>energy k. round_double (energy + \<bar>ch1 ! k\<bar>)) e1 [nat j..<nat is1])"
  using assms
proof (induction ch0 ch1 j is1 "(e0, e1)" arbitrary: e0 e1 rule: energy_loop.induct)
  case (1 ch0 ch1 j is1 energy0 energy1)
  show ?case
  proof (cases "j < is1")
    case True
    with 1(2-4) have b: "0 \<le> j \<and> nat j < length ch0 \<and> nat j < length ch1"
      by (auto simp: nat_less_iff)
    have up: "[nat j..<nat is1] = nat j # [nat (j + 1)..<nat is1]"
      using True 1(2) by (simp add: upt_conv_Cons nat_add_distrib)
    have "energy_loop ch0 ch1 j is1 (energy0, energy1) =
          energy_loop ch0 ch1 (j + 1) is1
            (round_double (energy0 + \<bar>ch0 ! nat j\<bar>), round_double (energy1 + \<bar>ch1 ! nat j\<bar>))"
      using True b by (subst energy_loop.simps) simp
    also have "\<dots> =
        Some (foldl (\<lambda>energy k. round_double (energy + \<bar>ch0 ! k\<bar>))
                (round_double (energy0 + \<bar>ch0 ! nat j\<bar>)) [nat (j + 1)..<nat is1],
              foldl (\<lambda>energy k. round_double (energy + \<bar>ch1 ! k\<bar>))
                (round_double (energy1 + \<bar>ch1 ! nat j\<bar>)) [nat (j + 1)..<nat is1])"
      using 1(2-4) by (intro 1(1)[OF True b]) simp_all
    finally show ?thesis unfolding up by simp
  next
    case False
    then have "[nat j..<nat is1] = []" by simp
    with False show ?thesis by (subst energy_loop.simps) simp
  qed
qed

lemma segment_speaker_two:
  assumes "p_diarize params" "length ch0 = length ch1"
  shows "segment_speaker params [ch0, ch1] t0 t1 =
         (let n_samples = int (length ch0);
              is0 = timestamp_to_sample t0 n_samples;
              is1 = timestamp_to_sample t1 n_samples;
              energy0 = spec_energy_double ch0 is0 is1;
              energy1 = spec_energy_double ch1 is0 is1
          in Some (if energy0 > round_double (double_1_1 * energy1) then ''(speaker 0)''
                   else if energy1 > round_double (double_1_1 * energy0) then ''(speaker 1)''
                   else ''(speaker ?)''))"
proof -
  let ?n = "int (length ch0)"
  have b: "0 \<le> timestamp_to_sample t0 ?n" "timestamp_to_sample t1 ?n \<le> int (length ch0)"
    "timestamp_to_sample t1 ?n \<le> int (length ch1)"
    using timestamp_to_sample_bounds[of ?n] assms(2) by simp_all
  show ?thesis
    using assms(1) energy_loop_fold[OF b, of 0 0]
    by (simp add: segment_speaker_def spec_energy_double_def Let_def)
qed

lemma running_sum_double:
  assumes "0 \<le> e" "round_double e = e"
  shows "0 \<le> foldl (\<lambda>energy k. round_double (energy + \<bar>ch ! k\<bar>)) e ks
       \<and> round_double (foldl (\<lambda>energy k. round_double (energy + \<bar>ch ! k\<bar>)) e ks) =
           foldl (\<lambda>energy k. round_double (energy + \<bar>ch ! k\<bar>)) e ks"
  using assms
proof (induction ks arbitrary: e)
  case Nil
  then show ?case by simp
next
  case (Cons k ks)
  have s: "0 \<le> e + \<bar>ch ! k\<bar>" using Cons.prems(1) by simp
  show ?case
    using Cons.IH[OF round_double_nonneg[OF s] round_double_idem[OF s]] by simp
qed

lemma spec_energy_double_value:
  "0 \<le> spec_energy_double ch a b"
  "round_double (spec_energy_double ch a b) = spec_energy_double ch a b"
proof -
  have z: "round_double 0 = 0" by (simp add: round_double_def)
  from running_sum_double[of 0 ch "[nat a..<nat b]", OF _ z]
  show "0 \<le> spec_energy_double ch a b"
    "round_double (spec_energy_double ch a b) = spec_energy_double ch a b"
    by (simp_all add: spec_energy_double_def)
qed

lemma double_1_1_value: "double_1_1 = 2476979795053773 / 2251799813685248"
  by code_simp

lemma scaled_energy_ge:
  assumes "0 \<le> e" "round_double e = e"
  shows "e \<le> round_double (double_1_1 * e)"
proof -
  have "1 * e \<le> double_1_1 * e"
    using assms(1) by (intro mult_right_mono) (simp_all add: double_1_1_value)
  then have "e \<le> double_1_1 * e" by simp
  with assms show ?thesis by (intro round_double_ge)
qed

text \<open>
  Claim C6, as stated, fails in two ways. Where the cast \<open>(int)\<close> in
  \<open>timestamp_to_sample\<close> wraps: with two samples per channel and the span from tick 0
  to tick 13421773, the sample index \<open>13421773 * 160\<close> exceeds \<open>2^31 - 1\<close>, the cast
  makes it negative and the clamp returns 0, so the span is empty and the label is
  ambiguous, where the stated index range holds index 0 and gives speaker 0. And where
  the rounding of the product decides: the three samples of \<open>ex_loud\<close> sum to half the
  \<open>double\<close> nearest to 1.1, which is greater than 1.1 times the energy 1/2 of
  \<open>ex_quiet\<close>; the code compares with the rounded product of that \<open>double\<close> and 1/2,
  which is the energy itself, and the label is ambiguous.
\<close>

theorem segment_speaker_spec_counterexample:
  "segment_speaker ex_diarize_params [[1 / 2, 0], [0, 0]] 0 13421773 = Some ''(speaker ?)''
   \<and> spec_speaker [1 / 2, 0] [0, 0] 0 13421773 = ''(speaker 0)''
   \<and> segment_speaker ex_diarize_params [ex_loud, ex_quiet] 0 1 = Some ''(speaker ?)''
   \<and> spec_speaker ex_loud ex_quiet 0 1 = ''(speaker 0)''"
  by code_simp

text \<open>
  Claim C6, amended: with diarization enabled, two channel buffers of equal length
  below \<open>2^31\<close> samples and both ticks with a sample index \<open>t * 160\<close> in the range of a
  32-bit \<open>int\<close>, the label is the one the specification describes, computed in double
  precision: the energies are the running sums, rounded after each addition, of the
  absolute samples over
  \<open>[clamp(t0*16000/100, 0, n_samples-1), clamp(t1*16000/100, 0, n_samples-1))\<close>; the
  label is speaker 0 if the energy of channel 0 is greater than the rounded product of
  the \<open>double\<close> 1.1 and the energy of channel 1, speaker 1 under the symmetric
  condition, and ambiguous otherwise.
\<close>

theorem segment_speaker_spec:
  assumes "p_diarize params" "length ch0 = length ch1" "int (length ch0) < 2 ^ 31"
    and "- (2 ^ 31) \<le> t0 * 160" "t0 * 160 < 2 ^ 31"
    and "- (2 ^ 31) \<le> t1 * 160" "t1 * 160 < 2 ^ 31"
  shows "segment_speaker params [ch0, ch1] t0 t1 = Some (spec_speaker_double ch0 ch1 t0 t1)"
proof -
  have "timestamp_to_sample t0 (int (length ch0)) =
        spec_clamp (t0 * 16000 div 100) 0 (int (length ch0) - 1)"
    using assms by (intro timestamp_to_sample_in_range) simp_all
  moreover have "timestamp_to_sample t1 (int (length ch0)) =
        spec_clamp (t1 * 16000 div 100) 0 (int (length ch0) - 1)"
    using assms by (intro timestamp_to_sample_in_range) simp_all
  ultimately show ?thesis
    unfolding segment_speaker_two[OF assms(1,2)] spec_speaker_double_def by (simp add: Let_def)
qed

lemma segment_speaker_example:
  "segment_speaker ex_diarize_params [[1 / 2, 0], [0, 0]] 0 1 = Some ''(speaker 0)''"
  by code_simp

lemma spec_speaker_double_example: "spec_speaker_double [1 / 2, 0] [0, 0] 0 1 = ''(speaker 0)''"
  by code_simp

lemma ex_diarize_params_diarize: "p_diarize ex_diarize_params"
  by (simp add: ex_diarize_params_def)

text \<open>Claim C6 on two samples per channel and the span from tick 0 to tick 1.\<close>

theorem segment_speaker_spec_witness:
  "p_diarize ex_diarize_params \<and> length [1 / 2, 0 :: rat] = length [0, 0 :: rat]
   \<and> int (length [1 / 2, 0 :: rat]) < 2 ^ 31
   \<and> - (2 ^ 31) \<le> (0 :: int) * 160 \<and> (0 :: int) * 160 < 2 ^ 31
   \<and> - (2 ^ 31) \<le> (1 :: int) * 160 \<and> (1 :: int) * 160 < 2 ^ 31
   \<and> segment_speaker ex_diarize_params [[1 / 2, 0], [0, 0]] 0 1 = Some ''(speaker 0)''"
proof -
  have h: "length [1 / 2, 0 :: rat] = length [0, 0 :: rat]"
    "int (length [1 / 2, 0 :: rat]) < 2 ^ 31"
    "- (2 ^ 31) \<le> (0 :: int) * 160" "(0 :: int) * 160 < 2 ^ 31"
    "- (2 ^ 31) \<le> (1 :: int) * 160" "(1 :: int) * 160 < 2 ^ 31"
    by simp_all
  from segment_speaker_spec[OF ex_diarize_params_diarize h] spec_speaker_double_example
  have "segment_speaker ex_diarize_params [[1 / 2, 0], [0, 0]] 0 1 = Some ''(speaker 0)''"
    by simp
  with ex_diarize_params_diarize h show ?thesis by simp
qed

text \<open>
  Claim C7: for two channel buffers of equal length and every span, exchanging the
  buffers exchanges the outcome: speaker 0 becomes speaker 1 and the reverse, and an
  ambiguous span stays ambiguous. The label is always computed (no read past the end
  of a buffer). Without diarization the label is empty before and after.
\<close>

theorem segment_speaker_swap:
  assumes "length ch0 = length ch1"
  shows "segment_speaker params [ch0, ch1] t0 t1 \<noteq> None \<and>
         segment_speaker params [ch1, ch0] t0 t1 =
           map_option swap_speaker (segment_speaker params [ch0, ch1] t0 t1)"
proof (cases "p_diarize params")
  case False
  then show ?thesis by (simp add: segment_speaker_def swap_speaker_def)
next
  case True
  let ?n = "int (length ch0)"
  let ?e0 = "spec_energy_double ch0 (timestamp_to_sample t0 ?n) (timestamp_to_sample t1 ?n)"
  let ?e1 = "spec_energy_double ch1 (timestamp_to_sample t0 ?n) (timestamp_to_sample t1 ?n)"
  let ?s0 = "round_double (double_1_1 * ?e0)"
  let ?s1 = "round_double (double_1_1 * ?e1)"
  have ge: "?e0 \<le> ?s0" "?e1 \<le> ?s1"
    by (rule scaled_energy_ge[OF spec_energy_double_value])+
  have a: "segment_speaker params [ch0, ch1] t0 t1 =
           Some (if ?e0 > ?s1 then ''(speaker 0)''
                 else if ?e1 > ?s0 then ''(speaker 1)'' else ''(speaker ?)'')"
    unfolding segment_speaker_two[OF True assms] Let_def ..
  have b: "segment_speaker params [ch1, ch0] t0 t1 =
           Some (if ?e1 > ?s0 then ''(speaker 0)''
                 else if ?e0 > ?s1 then ''(speaker 1)'' else ''(speaker ?)'')"
    unfolding segment_speaker_two[OF True assms[symmetric]] Let_def assms ..
  have excl: "\<not> (?e0 > ?s1 \<and> ?e1 > ?s0)"
    using ge by linarith
  show ?thesis
    unfolding a b using excl by (simp add: swap_speaker_def)
qed

text \<open>Claim C7 on two samples per channel: the louder channel 0 becomes channel 1.\<close>

theorem segment_speaker_swap_witness:
  "length [1 / 2, 0 :: rat] = length [0, 0 :: rat]
   \<and> segment_speaker ex_diarize_params [[1 / 2, 0], [0, 0]] 0 1 = Some ''(speaker 0)''
   \<and> segment_speaker ex_diarize_params [[0, 0], [1 / 2, 0]] 0 1 = Some ''(speaker 1)''"
proof -
  have h: "length [1 / 2, 0 :: rat] = length [0, 0 :: rat]" by simp
  from segment_speaker_swap[OF h, where params = ex_diarize_params and ?t0.0 = 0 and ?t1.0 = 1]
    segment_speaker_example
  have "segment_speaker ex_diarize_params [[0, 0], [1 / 2, 0]] 0 1 = Some ''(speaker 1)''"
    by (simp add: swap_speaker_def)
  with segment_speaker_example show ?thesis by simp
qed

section \<open>The colour index\<close>

lemma length_k_colors: "length k_colors = 10"
  by (simp add: k_colors_def)

lemma color_index_below_one:
  assumes "0 \<le> p" "p < 1"
  shows "0 \<le> color_index p \<and> color_index p \<le> 9"
proof -
  have "p ^ 3 < 1" using assms by (simp add: power_less_one_iff)
  then have "p ^ 3 * 10 < 10" by simp
  moreover have "0 \<le> p ^ 3 * 10" using assms by simp
  ultimately have "\<lfloor>p ^ 3 * 10\<rfloor> \<le> 9" "0 \<le> \<lfloor>p ^ 3 * 10\<rfloor>"
    by (simp_all add: floor_le_iff)
  then show ?thesis
    using \<open>0 \<le> p ^ 3 * 10\<close> by (simp add: color_index_def int_of_double_def length_k_colors)
qed

text \<open>
  Claim C8 says that for every probability in \<open>[0, 1]\<close> the colour index lies in
  \<open>[0, 9]\<close>. At \<open>p = 1\<close> the index is 10, one past the last of the 10 colours: the upper
  bound of the clamp is \<open>k_colors.size()\<close>. Printing the example segment in colour
  reads \<open>k_colors[10]\<close> at its second token, whose probability is 1.
\<close>

theorem color_index_at_one:
  "color_index 1 = 10 \<and> length k_colors = 10 \<and> k_colors_at (color_index 1) = None
   \<and> tok_p (ex_tokens ! 1) = 1
   \<and> print_segment ex_color_params [] 50256 (ex_segments ! 0) =
       [Rprintf ''%s%s%s'' [k_colors ! 7, '' Hello'', CHR 0x1B # ''[0m''],
        Undefined_behaviour ''k_colors[col]'', Rcpp_checkUserInterrupt]"
  by code_simp

section \<open>The structure of \<open>whisper_encode\<close>\<close>

lemma encode_params_eq:
  "encode_params hw path language translate print_special duration offset n_threads n_processors =
     \<lparr> p_n_threads = n_threads, p_n_processors = n_processors, p_offset_t_ms = offset,
       p_offset_n = 0, p_duration_ms = duration, p_max_context = - 1, p_max_len = 0,
       p_word_thold = 1 / 100, p_speed_up = False, p_translate = translate, p_diarize = False,
       p_output_txt = False, p_output_vtt = False, p_output_srt = False, p_output_wts = False,
       p_print_special = print_special, p_print_colors = False, p_no_timestamps = False,
       p_language = language, p_model = ''models/ggml-base.en.bin'', p_fname_inp = [path] \<rparr>"
  by (simp add: encode_params_def default_whisper_params_def)

lemma process_files_single:
  "process_files e tt trace ctx params [f] = process_file e tt trace ctx params f"
  by (simp split: prod.splits sum.splits)

lemma whisper_encode_unfold:
  "whisper_encode e ctx path language tt translate print_special duration offset trace
      n_threads n_processors =
     (if whisper_lang_id e language = - 1 then ([], ctx, Inl (Rcpp_stop ''Unknown language'' []))
      else (case process_file e tt trace ctx
                   (encode_params (hardware_concurrency e) path language translate print_special
                      duration offset n_threads n_processors) path of
              (evs, ctx', Inl err) \<Rightarrow> (evs, ctx', Inl err)
            | (evs, ctx', Inr params') \<Rightarrow>
                (evs, ctx', Inr (make_output ctx' params' path tt offset duration))))"
proof -
  let ?params = "encode_params (hardware_concurrency e) path language translate print_special
                      duration offset n_threads n_processors"
  have f: "p_fname_inp ?params = [path]" and l: "p_language ?params = language"
    by (simp_all add: encode_params_eq)
  show ?thesis
    unfolding whisper_encode_def Let_def f l process_files_single by simp
qed


subsection \<open>load_wav\<close>


lemma load_wav_no_diarize:
  assumes "\<not> p_diarize params"
  shows "load_wav e params f = Inr (pcmf32, pcmf32s) \<Longrightarrow> pcmf32s = []"
    and "load_wav e params f \<noteq> Inl (Rcpp_stop
           ''WAV file must be stereo for diarization and timestamps have to be enabled: '' [f])"
  using assms by (auto simp: load_wav_def Let_def split: option.splits if_splits)

subsection \<open>language_fallback\<close>

lemma language_fallback_eq:
  "language_fallback ctx params =
     (if \<not> whisper_is_multilingual ctx \<and> (p_language params \<noteq> ''en'' \<or> p_translate params)
      then (params\<lparr>p_language := ''en'', p_translate := False\<rparr>,
            [Rcpp_warning
              ''WARNING: model is not multilingual, ignoring language and translation options''])
      else (params, []))"
  by (simp add: language_fallback_def)

lemma language_fallback_keeps:
  "p_diarize (fst (language_fallback ctx params)) = p_diarize params"
  "p_print_special (fst (language_fallback ctx params)) = p_print_special params"
  by (simp_all add: language_fallback_eq)

lemma language_fallback_events:
  "ev \<in> set (snd (language_fallback ctx params)) \<Longrightarrow>
     \<not> is_engine_call ev \<and> printed_speaker ev = None"
  by (auto simp: language_fallback_eq split: if_splits)

subsection \<open>What the callback prints\<close>

lemma print_colors_loop_events:
  "ev \<in> set (print_colors_loop fmt pre params eot tks) \<Longrightarrow>
     (\<exists>args. ev = Rprintf fmt (pre @ args)) \<or> (\<exists>s. ev = Undefined_behaviour s)"
  by (induction tks) (auto split: if_splits option.splits)

lemma print_segment_events:
  assumes "ev \<in> set (print_segment params pcmf32s eot seg)"
  shows "\<not> is_engine_call ev"
    and "\<not> p_diarize params \<Longrightarrow> printed_speaker ev = None \<or> printed_speaker ev = Some []"
proof -
  show "\<not> is_engine_call ev"
    using assms print_colors_loop_events[of ev _ _ params eot "seg_tokens seg"]
    by (fastforce simp: print_segment_def Let_def split: if_splits option.splits)
  assume nd: "\<not> p_diarize params"
  then have sp: "segment_speaker params pcmf32s t0 t1 = Some []" for t0 t1
    by (simp add: segment_speaker_def)
  show "printed_speaker ev = None \<or> printed_speaker ev = Some []"
    using assms print_colors_loop_events[of ev "''%s%s%s''" "[]" params eot "seg_tokens seg"]
      print_colors_loop_events[of ev "''%s%s%s%s''" "[[]]" params eot "seg_tokens seg"]
    by (auto simp: print_segment_def Let_def sp split: if_splits)
qed

lemma callback_events:
  assumes "ev \<in> set (whisper_print_segment_callback ctx n_new params pcmf32s)"
  shows "\<not> is_engine_call ev"
    and "\<not> p_diarize params \<Longrightarrow> printed_speaker ev = None \<or> printed_speaker ev = Some []"
proof -
  from assms consider "ev = Rprintf [CHR 0x0A] []" | "ev = Undefined_behaviour ''segment index''"
    | seg where "ev \<in> set (print_segment params pcmf32s (whisper_token_eot ctx) seg)"
    by (auto simp: whisper_print_segment_callback_def Let_def split: if_splits)
  note cases = this
  show "\<not> is_engine_call ev"
    by (rule cases) (auto dest: print_segment_events(1))
  assume nd: "\<not> p_diarize params"
  show "printed_speaker ev = None \<or> printed_speaker ev = Some []"
    by (rule cases) (use nd in \<open>auto dest: print_segment_events(2)\<close>)
qed


subsection \<open>The trace of one file\<close>

lemma run_inference_events:
  assumes "ev \<in> set (fst (run_inference e tt trace ctx params pcmf32 pcmf32s))"
  shows "ev = Call_whisper_full_parallel
                (make_wparams (whisper_full_default_params e) params tt trace) pcmf32
                (p_n_processors params)
         \<or> (\<exists>c n_new. ev \<in> set (whisper_print_segment_callback c n_new params pcmf32s))"
  using assms by (auto simp: run_inference_def Let_def split: if_splits)

lemma process_file_load_error:
  "load_wav e params f = Inl err \<Longrightarrow> process_file e tt trace ctx params f = ([], ctx, Inl err)"
  by (simp add: process_file_def)

lemma process_file_loaded:
  assumes "load_wav e params f = Inr (pcmf32, pcmf32s)"
  shows "fst (process_file e tt trace ctx params f) =
           snd (language_fallback ctx params)
           @ Rcout_processing f (i32 (int (length pcmf32)))
               (p_language (fst (language_fallback ctx params)))
               (p_translate (fst (language_fallback ctx params))) tt
           # fst (run_inference e tt trace ctx (fst (language_fallback ctx params)) pcmf32 pcmf32s)"
    and "snd (snd (process_file e tt trace ctx params f)) = Inr params' \<Longrightarrow>
           params' = fst (language_fallback ctx params)"
    and "fst (snd (process_file e tt trace ctx params f)) =
           fst (snd (run_inference e tt trace ctx (fst (language_fallback ctx params))
                       pcmf32 pcmf32s))"
  using assms
  by (auto simp: process_file_def Let_def split: prod.splits sum.splits)

lemma process_file_Inr:
  assumes "snd (snd (process_file e tt trace ctx params f)) = Inr params'"
  shows "params' = fst (language_fallback ctx params)"
    and "set (snd (language_fallback ctx params)) \<subseteq> set (fst (process_file e tt trace ctx params f))"
proof -
  from assms obtain pcmf32 pcmf32s where l: "load_wav e params f = Inr (pcmf32, pcmf32s)"
    by (cases "load_wav e params f") (auto simp: process_file_load_error)
  show "params' = fst (language_fallback ctx params)"
    using process_file_loaded(2)[OF l assms] .
  show "set (snd (language_fallback ctx params)) \<subseteq> set (fst (process_file e tt trace ctx params f))"
    unfolding process_file_loaded(1)[OF l] by auto
qed

lemma process_file_events:
  assumes "ev \<in> set (fst (process_file e tt trace ctx params f))"
  shows "(is_engine_call ev \<longrightarrow>
            (\<exists>pcmf32 n. ev = Call_whisper_full_parallel
               (make_wparams (whisper_full_default_params e) (fst (language_fallback ctx params))
                  tt trace) pcmf32 n))"
    and "\<not> p_diarize params \<Longrightarrow> printed_speaker ev = None \<or> printed_speaker ev = Some []"
proof -
  show "is_engine_call ev \<longrightarrow>
            (\<exists>pcmf32 n. ev = Call_whisper_full_parallel
               (make_wparams (whisper_full_default_params e) (fst (language_fallback ctx params))
                  tt trace) pcmf32 n)"
  proof (cases "load_wav e params f")
    case (Inl err)
    with assms show ?thesis by (simp add: process_file_load_error)
  next
    case (Inr b)
    then obtain pcmf32 pcmf32s where l: "load_wav e params f = Inr (pcmf32, pcmf32s)"
      by (cases b) auto
    from assms show ?thesis
      unfolding process_file_loaded(1)[OF l]
      by (auto dest: language_fallback_events run_inference_events callback_events(1))
  qed
  assume nd: "\<not> p_diarize params"
  show "printed_speaker ev = None \<or> printed_speaker ev = Some []"
  proof (cases "load_wav e params f")
    case (Inl err)
    with assms show ?thesis by (simp add: process_file_load_error)
  next
    case (Inr b)
    then obtain pcmf32 pcmf32s where l: "load_wav e params f = Inr (pcmf32, pcmf32s)"
      by (cases b) auto
    have nd': "\<not> p_diarize (fst (language_fallback ctx params))"
      using nd by (simp add: language_fallback_keeps)
    from assms consider "ev \<in> set (snd (language_fallback ctx params))"
      | n l t where "ev = Rcout_processing f n l t tt"
      | "ev \<in> set (fst (run_inference e tt trace ctx (fst (language_fallback ctx params))
                          pcmf32 pcmf32s))"
      unfolding process_file_loaded(1)[OF l] by auto
    then show ?thesis
    proof cases
      case 1
      then show ?thesis by (auto dest: language_fallback_events)
    next
      case 2
      then show ?thesis by simp
    next
      case 3
      from run_inference_events[OF 3] show ?thesis
        using callback_events(2)[OF _ nd'] by auto
    qed
  qed
qed

section \<open>Results about \<open>whisper_encode\<close>\<close>

lemma encode_params_fields:
  "p_diarize (encode_params hw path language translate ps duration offset nt np) = False"
  "p_print_special (encode_params hw path language translate ps duration offset nt np) = ps"
  "p_language (encode_params hw path language translate ps duration offset nt np) = language"
  "p_translate (encode_params hw path language translate ps duration offset nt np) = translate"
  by (simp_all add: encode_params_eq)

lemma whisper_encode_trace:
  "trace_of (whisper_encode e ctx path language tt translate ps duration offset trace nt np) =
     (if whisper_lang_id e language = - 1 then []
      else fst (process_file e tt trace ctx
                  (encode_params (hardware_concurrency e) path language translate ps
                     duration offset nt np) path))"
  unfolding whisper_encode_unfold trace_of_def
  by (simp split: prod.splits sum.splits)

lemma whisper_encode_context:
  "context_after (whisper_encode e ctx path language tt translate ps duration offset trace nt np) =
     (if whisper_lang_id e language = - 1 then ctx
      else fst (snd (process_file e tt trace ctx
                  (encode_params (hardware_concurrency e) path language translate ps
                     duration offset nt np) path)))"
  unfolding whisper_encode_unfold context_after_def
  by (simp split: prod.splits sum.splits)

lemma whisper_encode_raised:
  "raised (whisper_encode e ctx path language tt translate ps duration offset trace nt np) =
     (if whisper_lang_id e language = - 1 then Some (Rcpp_stop ''Unknown language'' [])
      else (case snd (snd (process_file e tt trace ctx
                  (encode_params (hardware_concurrency e) path language translate ps
                     duration offset nt np) path)) of
              Inl err \<Rightarrow> Some err | Inr params' \<Rightarrow> None))"
  unfolding whisper_encode_unfold raised_def
  by (simp split: prod.splits sum.splits)

lemma whisper_encode_returned:
  assumes "returned (whisper_encode e ctx path language tt translate ps duration offset trace
             nt np) = Some out"
  shows "whisper_lang_id e language \<noteq> - 1"
    and "\<exists>params'. snd (snd (process_file e tt trace ctx
                  (encode_params (hardware_concurrency e) path language translate ps
                     duration offset nt np) path)) = Inr params'
           \<and> out = make_output (context_after (whisper_encode e ctx path language tt translate
                       ps duration offset trace nt np)) params' path tt offset duration"
  using assms unfolding whisper_encode_unfold returned_def context_after_def
  by (auto split: prod.splits sum.splits if_splits)


text \<open>
  Claim C2: for every call that returns, if the model is not multilingual and the
  caller passed a language other than \<open>en\<close> or \<open>translate = true\<close>, the warning is
  emitted and the returned parameters report the language \<open>en\<close> and
  \<open>translate = false\<close>; otherwise they report the caller's language and \<open>translate\<close>
  unchanged.
\<close>

theorem whisper_encode_language:
  assumes "returned (whisper_encode e ctx path language tt translate ps duration offset trace
             nt np) = Some out"
  shows "if \<not> whisper_is_multilingual ctx \<and> (language \<noteq> ''en'' \<or> translate)
         then Rcpp_warning
                ''WARNING: model is not multilingual, ignoring language and translation options''
                \<in> set (trace_of (whisper_encode e ctx path language tt translate ps duration
                                   offset trace nt np))
              \<and> out_language (out_params out) = ''en''
              \<and> out_translate (out_params out) = False
         else out_language (out_params out) = language
              \<and> out_translate (out_params out) = translate"
proof -
  let ?params = "encode_params (hardware_concurrency e) path language translate ps
                     duration offset nt np"
  from whisper_encode_returned[OF assms] obtain params' where
    k: "whisper_lang_id e language \<noteq> - 1"
    and p: "snd (snd (process_file e tt trace ctx ?params path)) = Inr params'"
    and o: "out = make_output (context_after (whisper_encode e ctx path language tt translate
                       ps duration offset trace nt np)) params' path tt offset duration"
    by blast
  note pf = process_file_Inr[OF p]
  have ol: "out_language (out_params out) = p_language params'"
    "out_translate (out_params out) = p_translate params'"
    unfolding o by (simp_all add: make_output_def Let_def)
  show ?thesis
    using pf(2) unfolding ol pf(1) whisper_encode_trace
    by (auto simp: language_fallback_eq encode_params_fields k)
qed

text \<open>
  Claim C9: in every call the \<open>token_timestamps\<close> field of the configuration passed to
  the engine is the argument \<open>token_timestamps\<close> of \<open>whisper_encode\<close>; the configuration
  built from any parameters, whatever their \<open>output_wts\<close> and \<open>max_len\<close>, carries the
  argument.
\<close>

theorem whisper_encode_token_timestamps:
  "(\<forall>ev \<in> set (trace_of (whisper_encode e ctx path language tt translate ps duration offset
                          trace nt np)).
      \<forall>wparams pcmf32 n. ev = Call_whisper_full_parallel wparams pcmf32 n \<longrightarrow>
         wp_token_timestamps wparams = tt)
   \<and> wp_token_timestamps (make_wparams defaults params tt trace) = tt"
proof -
  have m: "wp_token_timestamps (make_wparams d p tt tr) = tt" for d p tr
    by (simp add: make_wparams_def Let_def)
  have "wp_token_timestamps wparams = tt"
    if "ev \<in> set (trace_of (whisper_encode e ctx path language tt translate ps duration offset
                          trace nt np))"
      and "ev = Call_whisper_full_parallel wparams pcmf32 n" for ev wparams pcmf32 n
  proof -
    from that(1) have "ev \<in> set (fst (process_file e tt trace ctx
                  (encode_params (hardware_concurrency e) path language translate ps
                     duration offset nt np) path))"
      unfolding whisper_encode_trace by (simp split: if_splits)
    from process_file_events(1)[OF this] that(2) show ?thesis
      by (auto simp: m)
  qed
  with m show ?thesis by blast
qed

text \<open>
  Claim C10: in every call of \<open>whisper_encode\<close> the field \<open>diarize\<close> is false, at the
  start and after the loop over the files; the channel buffers \<open>pcmf32s\<close> stay empty;
  the error of the diarization check (source lines 256-258) is never raised; and every
  segment line that is printed carries the empty speaker string. The returned list
  has no speaker field.
\<close>

theorem whisper_encode_never_diarizes:
  "\<not> p_diarize (encode_params (hardware_concurrency e) path language translate ps duration
                  offset nt np)
   \<and> (\<forall>params'. snd (snd (process_files e tt trace ctx
                    (encode_params (hardware_concurrency e) path language translate ps duration
                       offset nt np) [path])) = Inr params' \<longrightarrow> \<not> p_diarize params')
   \<and> (\<forall>pcmf32 pcmf32s.
         load_wav e (encode_params (hardware_concurrency e) path language translate ps duration
                       offset nt np) path = Inr (pcmf32, pcmf32s) \<longrightarrow> pcmf32s = [])
   \<and> raised (whisper_encode e ctx path language tt translate ps duration offset trace nt np)
       \<noteq> Some (Rcpp_stop
            ''WAV file must be stereo for diarization and timestamps have to be enabled: ''
            [path])
   \<and> (\<forall>ev \<in> set (trace_of (whisper_encode e ctx path language tt translate ps duration offset
                             trace nt np)).
         printed_speaker ev = None \<or> printed_speaker ev = Some [])"
proof -
  let ?params = "encode_params (hardware_concurrency e) path language translate ps duration
                  offset nt np"
  have nd: "\<not> p_diarize ?params" by (simp add: encode_params_fields)
  have a: "\<not> p_diarize params'"
    if "snd (snd (process_files e tt trace ctx ?params [path])) = Inr params'" for params'
    using process_file_Inr(1)[of e tt trace ctx ?params path params'] that nd
    unfolding process_files_single by (simp add: language_fallback_keeps)
  have b: "pcmf32s = []" if "load_wav e ?params path = Inr (pcmf32, pcmf32s)" for pcmf32 pcmf32s
    using load_wav_no_diarize(1)[OF nd that] .
  have c: "raised (whisper_encode e ctx path language tt translate ps duration offset trace nt np)
       \<noteq> Some (Rcpp_stop
            ''WAV file must be stereo for diarization and timestamps have to be enabled: ''
            [path])"
  proof (cases "load_wav e ?params path")
    case (Inl err)
    with load_wav_no_diarize(2)[OF nd, of e path] show ?thesis
      unfolding whisper_encode_raised by (simp add: process_file_load_error)
  next
    case (Inr b)
    then obtain pcmf32 pcmf32s where l: "load_wav e ?params path = Inr (pcmf32, pcmf32s)"
      by (cases b) auto
    show ?thesis
      unfolding whisper_encode_raised
      by (auto simp: process_file_def l run_inference_def Let_def split: prod.splits sum.splits)
  qed
  have d: "printed_speaker ev = None \<or> printed_speaker ev = Some []"
    if "ev \<in> set (trace_of (whisper_encode e ctx path language tt translate ps duration offset
                             trace nt np))" for ev
  proof -
    from that have "ev \<in> set (fst (process_file e tt trace ctx ?params path))"
      unfolding whisper_encode_trace by (simp split: if_splits)
    from process_file_events(2)[OF this nd] show ?thesis .
  qed
  from nd a b c d show ?thesis by blast
qed

section \<open>The token table\<close>

lemma token_loop_fields:
  fixes v :: "'a token_vectors_scheme" and print_special :: bool and eot :: int
  defines "keep \<equiv> (\<lambda>token. print_special \<or> tok_id token < eot)"
  shows "token_segment_nr (token_loop print_special tt eot i tks v) =
           token_segment_nr v @ map (\<lambda>token. i + 1) (filter keep tks)"
    and "token_segment_text (token_loop print_special tt eot i tks v) =
           token_segment_text v @ map tok_text (filter keep tks)"
    and "token_segment_probability (token_loop print_special tt eot i tks v) =
           token_segment_probability v @ map tok_p (filter keep tks)"
    and "token_segment_from (token_loop print_special tt eot i tks v) =
           token_segment_from v
           @ (if tt then map (\<lambda>token. to_timestamp (tok_t0 token) False) (filter keep tks) else [])"
    and "token_segment_to (token_loop print_special tt eot i tks v) =
           token_segment_to v
           @ (if tt then map (\<lambda>token. to_timestamp (tok_t1 token) False) (filter keep tks) else [])"
    and "token_vectors.more (token_loop print_special tt eot i tks v) = token_vectors.more v"
  unfolding keep_def
  by (induction tks arbitrary: v; auto simp: Let_def)+

lemma segment_loop_fields:
  fixes print_special :: bool and eot :: int
  defines "rows \<equiv> (\<lambda>n segs.
     concat (map (\<lambda>(k, seg). map (Pair (int k + 1))
                    (filter (\<lambda>token. print_special \<or> tok_id token < eot) (seg_tokens seg)))
               (enumerate n segs)))"
  shows "token_segment_nr (segment_loop print_special tt eot (int n) segs v) =
           token_segment_nr v @ map fst (rows n segs)
       \<and> token_segment_text (segment_loop print_special tt eot (int n) segs v) =
           token_segment_text v @ map (tok_text \<circ> snd) (rows n segs)
       \<and> token_segment_probability (segment_loop print_special tt eot (int n) segs v) =
           token_segment_probability v @ map (tok_p \<circ> snd) (rows n segs)
       \<and> token_segment_from (segment_loop print_special tt eot (int n) segs v) =
           token_segment_from v
           @ (if tt then map (\<lambda>(i, token). to_timestamp (tok_t0 token) False) (rows n segs)
              else [])
       \<and> token_segment_to (segment_loop print_special tt eot (int n) segs v) =
           token_segment_to v
           @ (if tt then map (\<lambda>(i, token). to_timestamp (tok_t1 token) False) (rows n segs)
              else [])"
proof (induction segs arbitrary: n v)
  case Nil
  show ?case by (simp add: rows_def)
next
  case (Cons seg segs)
  have r: "rows n (seg # segs) =
           map (Pair (int n + 1))
             (filter (\<lambda>token. print_special \<or> tok_id token < eot) (seg_tokens seg))
           @ rows (Suc n) segs"
    by (simp add: rows_def)
  define w where "w = token_loop print_special tt eot (int n) (seg_tokens seg)
               (v\<lparr>segment_nr := segment_nr v @ [int n + 1],
                  transcriptions := transcriptions v @ [seg_text seg],
                  transcriptions_from := transcriptions_from v @ [to_timestamp (seg_t0 seg) False],
                  transcriptions_to := transcriptions_to v @ [to_timestamp (seg_t1 seg) False]\<rparr>)"
  have s: "segment_loop print_special tt eot (int n) (seg # segs) v =
           segment_loop print_special tt eot (int (Suc n)) segs w"
    by (simp add: Let_def add.commute w_def)
  have w: "token_segment_nr w = token_segment_nr v @ map (\<lambda>token. int n + 1)
             (filter (\<lambda>token. print_special \<or> tok_id token < eot) (seg_tokens seg))"
    "token_segment_text w = token_segment_text v @ map tok_text
             (filter (\<lambda>token. print_special \<or> tok_id token < eot) (seg_tokens seg))"
    "token_segment_probability w = token_segment_probability v @ map tok_p
             (filter (\<lambda>token. print_special \<or> tok_id token < eot) (seg_tokens seg))"
    "token_segment_from w = token_segment_from v @
       (if tt then map (\<lambda>token. to_timestamp (tok_t0 token) False)
             (filter (\<lambda>token. print_special \<or> tok_id token < eot) (seg_tokens seg)) else [])"
    "token_segment_to w = token_segment_to v @
       (if tt then map (\<lambda>token. to_timestamp (tok_t1 token) False)
             (filter (\<lambda>token. print_special \<or> tok_id token < eot) (seg_tokens seg)) else [])"
    unfolding w_def by (simp_all add: token_loop_fields)
  note IH = Cons.IH[of "Suc n" w]
  show ?case
    unfolding s r IH[THEN conjunct1] IH[THEN conjunct2, THEN conjunct1]
      IH[THEN conjunct2, THEN conjunct2, THEN conjunct1]
      IH[THEN conjunct2, THEN conjunct2, THEN conjunct2, THEN conjunct1]
      IH[THEN conjunct2, THEN conjunct2, THEN conjunct2, THEN conjunct2] w
    by (simp add: comp_def)
qed

lemma segment_loop_rows:
  "token_segment_nr (segment_loop ps tt eot 0 segs v) =
     token_segment_nr v @ map fst (spec_token_rows ps eot segs)"
  "token_segment_text (segment_loop ps tt eot 0 segs v) =
     token_segment_text v @ map (tok_text \<circ> snd) (spec_token_rows ps eot segs)"
  "token_segment_probability (segment_loop ps tt eot 0 segs v) =
     token_segment_probability v @ map (tok_p \<circ> snd) (spec_token_rows ps eot segs)"
  "token_segment_from (segment_loop ps tt eot 0 segs v) =
     token_segment_from v
     @ (if tt then map (\<lambda>(i, token). to_timestamp (tok_t0 token) False)
                     (spec_token_rows ps eot segs) else [])"
  "token_segment_to (segment_loop ps tt eot 0 segs v) =
     token_segment_to v
     @ (if tt then map (\<lambda>(i, token). to_timestamp (tok_t1 token) False)
                     (spec_token_rows ps eot segs) else [])"
  using segment_loop_fields[of ps tt eot 0 segs v]
  unfolding spec_token_rows_def by simp_all

lemma make_output_tokens:
  "tokens_segment (out_tokens (make_output ctx params path tt offset duration)) =
     map fst (spec_token_rows (p_print_special params) (whisper_token_eot ctx) (ctx_segments ctx))"
  "tokens_token (out_tokens (make_output ctx params path tt offset duration)) =
     map (tok_text \<circ> snd)
       (spec_token_rows (p_print_special params) (whisper_token_eot ctx) (ctx_segments ctx))"
  "tokens_token_prob (out_tokens (make_output ctx params path tt offset duration)) =
     map (tok_p \<circ> snd)
       (spec_token_rows (p_print_special params) (whisper_token_eot ctx) (ctx_segments ctx))"
  "tokens_token_from (out_tokens (make_output ctx params path tt offset duration)) =
     (if tt then Some (map (\<lambda>(i, token). to_timestamp (tok_t0 token) False)
        (spec_token_rows (p_print_special params) (whisper_token_eot ctx) (ctx_segments ctx)))
      else None)"
  "tokens_token_to (out_tokens (make_output ctx params path tt offset duration)) =
     (if tt then Some (map (\<lambda>(i, token). to_timestamp (tok_t1 token) False)
        (spec_token_rows (p_print_special params) (whisper_token_eot ctx) (ctx_segments ctx)))
      else None)"
  by (simp_all add: make_output_def Let_def segment_loop_rows empty_vectors_def)

text \<open>
  Claim C3: in the result of every call that returns, the token table has one row for
  each token of the engine's result, in order, without the tokens whose id is at or
  above the end-of-text sentinel when \<open>print_special\<close> is false and with them when it
  is true. With \<open>token_timestamps\<close> the columns \<open>token_from\<close> and \<open>token_to\<close> hold the
  formatted start and end tick of each row's own token; without it the two columns are
  absent.
\<close>

theorem whisper_encode_token_table:
  assumes "returned (whisper_encode e ctx path language tt translate ps duration offset trace
             nt np) = Some out"
  shows "let ctx' = context_after (whisper_encode e ctx path language tt translate ps duration
                      offset trace nt np);
             rows = spec_token_rows ps (whisper_token_eot ctx') (ctx_segments ctx')
         in tokens_segment (out_tokens out) = map fst rows
            \<and> tokens_token (out_tokens out) = map (tok_text \<circ> snd) rows
            \<and> tokens_token_prob (out_tokens out) = map (tok_p \<circ> snd) rows
            \<and> (if tt
                then tokens_token_from (out_tokens out) =
                       Some (map (\<lambda>(i, token). to_timestamp (tok_t0 token) False) rows)
                     \<and> tokens_token_to (out_tokens out) =
                       Some (map (\<lambda>(i, token). to_timestamp (tok_t1 token) False) rows)
                else tokens_token_from (out_tokens out) = None
                     \<and> tokens_token_to (out_tokens out) = None)"
proof -
  let ?params = "encode_params (hardware_concurrency e) path language translate ps
                     duration offset nt np"
  from whisper_encode_returned[OF assms] obtain params' where
    p: "snd (snd (process_file e tt trace ctx ?params path)) = Inr params'"
    and o: "out = make_output (context_after (whisper_encode e ctx path language tt translate
                       ps duration offset trace nt np)) params' path tt offset duration"
    by blast
  have "p_print_special params' = ps"
    unfolding process_file_Inr(1)[OF p] by (simp add: language_fallback_keeps encode_params_fields)
  then show ?thesis
    unfolding o Let_def by (simp add: make_output_tokens)
qed

section \<open>The example call\<close>





lemma ex_speech_returned:
  "returned (whisper_encode ex_env ex_ctx ''speech.wav'' ''de'' True True False 0 0 False 1 1)
     = Some (the (returned
         (whisper_encode ex_env ex_ctx ''speech.wav'' ''de'' True True False 0 0 False 1 1)))"
  by code_simp

lemma ex_speech_context:
  "context_after (whisper_encode ex_env ex_ctx ''speech.wav'' ''de'' True True False 0 0 False 1 1)
     = ex_ctx\<lparr>ctx_segments := ex_segments\<rparr>"
  by code_simp

lemma ex_speech_rows:
  "spec_token_rows False (whisper_token_eot (ex_ctx\<lparr>ctx_segments := ex_segments\<rparr>))
     (ctx_segments (ex_ctx\<lparr>ctx_segments := ex_segments\<rparr>)) = [(1, ex_tokens ! 0), (1, ex_tokens ! 1)]"
  by code_simp

lemma ex_speech_call:
  "trace_of (whisper_encode ex_env ex_ctx ''speech.wav'' ''de'' True True False 0 0 False 1 1) ! 2
     = Call_whisper_full_parallel
         (ex_wparams\<lparr>wp_print_progress := False, wp_n_threads := 1, wp_token_timestamps := True,
            wp_new_segment_callback := True, wp_encoder_begin_callback := True\<rparr>)
         [0, 1 / 2, - (1 / 2), 32767 / 32768] 1"
  "length (trace_of (whisper_encode ex_env ex_ctx ''speech.wav'' ''de'' True True False 0 0 False 1 1)) = 5"
  "trace_of (whisper_encode ex_env ex_ctx ''speech.wav'' ''de'' True True False 0 0 False 1 1) ! 4
     = Rprintf (''[%s --> %s]  %s%s'' @ [CHR 0x0A])
         [''00:00:00.000'', ''00:00:05.000'', [], '' Hello world'']"
  by code_simp+

text \<open>
  Claim C2 on the mono file with the language \<open>de\<close> and \<open>translate = true\<close>, for the
  model that is not multilingual.
\<close>

theorem whisper_encode_language_witness:
  "returned (whisper_encode ex_env ex_ctx ''speech.wav'' ''de'' True True False 0 0 False 1 1)
     = Some (the (returned
         (whisper_encode ex_env ex_ctx ''speech.wav'' ''de'' True True False 0 0 False 1 1)))
   \<and> \<not> whisper_is_multilingual ex_ctx
   \<and> Rcpp_warning
        ''WARNING: model is not multilingual, ignoring language and translation options''
        \<in> set (trace_of
             (whisper_encode ex_env ex_ctx ''speech.wav'' ''de'' True True False 0 0 False 1 1))
   \<and> out_language (out_params (the (returned
         (whisper_encode ex_env ex_ctx ''speech.wav'' ''de'' True True False 0 0 False 1 1)))) = ''en''
   \<and> out_translate (out_params (the (returned
         (whisper_encode ex_env ex_ctx ''speech.wav'' ''de'' True True False 0 0 False 1 1)))) = False"
proof -
  have m: "\<not> whisper_is_multilingual ex_ctx" by (simp add: ex_ctx_def)
  from whisper_encode_language[OF ex_speech_returned] m ex_speech_returned
  show ?thesis by simp
qed

text \<open>
  Claim C3 on the mono file with \<open>token_timestamps = true\<close> and
  \<open>print_special = false\<close>: of the three tokens, the end-of-text token has no row.
\<close>

theorem whisper_encode_token_table_witness:
  "returned (whisper_encode ex_env ex_ctx ''speech.wav'' ''de'' True True False 0 0 False 1 1)
     = Some (the (returned
         (whisper_encode ex_env ex_ctx ''speech.wav'' ''de'' True True False 0 0 False 1 1)))
   \<and> map tok_id ex_tokens = [100, 200, 50256] \<and> whisper_token_eot ex_ctx = 50256
   \<and> tokens_token (out_tokens (the (returned
         (whisper_encode ex_env ex_ctx ''speech.wav'' ''de'' True True False 0 0 False 1 1))))
       = ['' Hello'', '' world'']
   \<and> tokens_token_from (out_tokens (the (returned
         (whisper_encode ex_env ex_ctx ''speech.wav'' ''de'' True True False 0 0 False 1 1))))
       = Some [''00:00:00.000'', ''00:00:02.500'']"
proof -
  have t: "to_timestamp 0 False = ''00:00:00.000''" "to_timestamp 250 False = ''00:00:02.500''"
    by code_simp+
  have i: "map tok_id ex_tokens = [100, 200, 50256]" "whisper_token_eot ex_ctx = 50256"
    by (simp_all add: ex_tokens_def ex_ctx_def)
  from whisper_encode_token_table[OF ex_speech_returned]
  have "tokens_token (out_tokens (the (returned
         (whisper_encode ex_env ex_ctx ''speech.wav'' ''de'' True True False 0 0 False 1 1))))
       = ['' Hello'', '' world'']
     \<and> tokens_token_from (out_tokens (the (returned
         (whisper_encode ex_env ex_ctx ''speech.wav'' ''de'' True True False 0 0 False 1 1))))
       = Some [''00:00:00.000'', ''00:00:02.500'']"
    unfolding ex_speech_context ex_speech_rows Let_def
    by (simp add: ex_tokens_def t)
  with ex_speech_returned i show ?thesis by simp
qed

text \<open>Claim C9 on the mono file with \<open>token_timestamps = true\<close>: the engine is called.\<close>

theorem whisper_encode_token_timestamps_witness:
  "\<exists>wparams pcmf32 n.
     Call_whisper_full_parallel wparams pcmf32 n
       \<in> set (trace_of
            (whisper_encode ex_env ex_ctx ''speech.wav'' ''de'' True True False 0 0 False 1 1))
     \<and> wp_token_timestamps wparams = True"
proof -
  let ?tr = "trace_of
            (whisper_encode ex_env ex_ctx ''speech.wav'' ''de'' True True False 0 0 False 1 1)"
  let ?wp = "ex_wparams\<lparr>wp_print_progress := False, wp_n_threads := 1,
               wp_token_timestamps := True, wp_new_segment_callback := True,
               wp_encoder_begin_callback := True\<rparr>"
  have "?tr ! 2 \<in> set ?tr" by (rule nth_mem) (simp add: ex_speech_call(2))
  then have m: "Call_whisper_full_parallel ?wp [0, 1 / 2, - (1 / 2), 32767 / 32768] 1 \<in> set ?tr"
    unfolding ex_speech_call(1) .
  from whisper_encode_token_timestamps[of ex_env ex_ctx "''speech.wav''" "''de''" True True False
         0 0 False 1 1, THEN conjunct1, THEN bspec, OF m]
  have "wp_token_timestamps ?wp = True" by blast
  with m show ?thesis by blast
qed

text \<open>
  Claim C10 on the mono file: the file loads with no channel buffers, the call goes
  through, and the segment line it prints has the empty speaker string.
\<close>

theorem whisper_encode_never_diarizes_witness:
  "Rprintf (''[%s --> %s]  %s%s'' @ [CHR 0x0A])
       [''00:00:00.000'', ''00:00:05.000'', [], '' Hello world'']
     \<in> set (trace_of
          (whisper_encode ex_env ex_ctx ''speech.wav'' ''de'' True True False 0 0 False 1 1))
   \<and> printed_speaker (Rprintf (''[%s --> %s]  %s%s'' @ [CHR 0x0A])
       [''00:00:00.000'', ''00:00:05.000'', [], '' Hello world'']) = Some []
   \<and> snd (snd (process_files ex_env True False ex_ctx
        (encode_params (hardware_concurrency ex_env) ''speech.wav'' ''de'' True False 0 0 1 1)
        [''speech.wav''])) \<noteq> Inl (Rcpp_stop ''failed to process audio'' [])
   \<and> load_wav ex_env
        (encode_params (hardware_concurrency ex_env) ''speech.wav'' ''de'' True False 0 0 1 1)
        ''speech.wav'' = Inr ([0, 1 / 2, - (1 / 2), 32767 / 32768], [])"
proof -
  let ?tr = "trace_of
            (whisper_encode ex_env ex_ctx ''speech.wav'' ''de'' True True False 0 0 False 1 1)"
  let ?ev = "Rprintf (''[%s --> %s]  %s%s'' @ [CHR 0x0A])
       [''00:00:00.000'', ''00:00:05.000'', [], '' Hello world'']"
  have "?tr ! 4 \<in> set ?tr" by (rule nth_mem) (simp add: ex_speech_call(2))
  then have m: "?ev \<in> set ?tr" unfolding ex_speech_call(3) .
  have l: "load_wav ex_env
        (encode_params (hardware_concurrency ex_env) ''speech.wav'' ''de'' True False 0 0 1 1)
        ''speech.wav'' = Inr ([0, 1 / 2, - (1 / 2), 32767 / 32768], [])"
    by code_simp
  have p: "snd (snd (process_files ex_env True False ex_ctx
        (encode_params (hardware_concurrency ex_env) ''speech.wav'' ''de'' True False 0 0 1 1)
        [''speech.wav''])) \<noteq> Inl (Rcpp_stop ''failed to process audio'' [])"
    by code_simp
  from whisper_encode_never_diarizes[of ex_env "''speech.wav''" "''de''" True False 0 0 1 1
         True False ex_ctx]
  have "\<forall>ev \<in> set ?tr. printed_speaker ev = None \<or> printed_speaker ev = Some []"
    by blast
  with m have "printed_speaker ?ev = None \<or> printed_speaker ?ev = Some []" by blast
  then have "printed_speaker ?ev = Some []" by simp
  with m l p show ?thesis by blast
qed

end
